theory Spec2Isabelle
  imports Main
begin

section \<open>Entities (class Entity)\<close>

text \<open>
  Python integers are unbounded: \<open>int\<close>. An Entity holds a health and a shield value.
  Hero and Minion inherit from Entity; the record is extended below, and the methods of
  Entity are written over the extensible record so that they work on all three.
\<close>

record entity =
  health :: int
  shield :: int

definition get_health :: "'a entity_scheme \<Rightarrow> int" where
  "get_health e = health e"

definition get_shield :: "'a entity_scheme \<Rightarrow> int" where
  "get_shield e = shield e"

definition apply_shield :: "int \<Rightarrow> 'a entity_scheme \<Rightarrow> 'a entity_scheme" where
  "apply_shield n e = e\<lparr>shield := shield e + n\<rparr>"

definition apply_health :: "int \<Rightarrow> 'a entity_scheme \<Rightarrow> 'a entity_scheme" where
  "apply_health n e = e\<lparr>health := health e + n\<rparr>"

text \<open>
  \<^verbatim>\<open>
  if damage <= self._shield:
      self._shield -= damage
  else:
      _damage_to_health = damage - self._shield
      self._shield = 0
      self._health -= _damage_to_health
      if self._health < 0:
          self._health = 0
  \<close>
\<close>

definition apply_damage :: "int \<Rightarrow> 'a entity_scheme \<Rightarrow> 'a entity_scheme" where
  "apply_damage damage e =
     (if damage \<le> shield e then e\<lparr>shield := shield e - damage\<rparr>
      else
        (let damage_to_health = damage - shield e;
             e1 = e\<lparr>shield := 0\<rparr>;
             e2 = e1\<lparr>health := health e1 - damage_to_health\<rparr>
         in if health e2 < 0 then e2\<lparr>health := 0\<rparr> else e2))"

text \<open>Entity.is_alive: the health is above 0.\<close>

definition is_alive :: "'a entity_scheme \<Rightarrow> bool" where
  "is_alive e = (health e > 0)"

section \<open>Cards (classes Card, Shield, Heal, Fireball, Minion, Wyrm, Raptor)\<close>

text \<open>
  A Minion is both a Card and an Entity. The three minion classes differ in name,
  symbol, effect and targeting; all three cost 2 and are permanent.
\<close>

datatype minion_class = MinionClass | WyrmClass | RaptorClass

record minion = entity +
  kind :: minion_class

text \<open>The constructors \<open>Minion(health, shield)\<close>, \<open>Wyrm(health, shield)\<close> and \<open>Raptor(health, shield)\<close>.\<close>

definition Minion :: "int \<Rightarrow> int \<Rightarrow> minion" where
  "Minion h s = \<lparr>health = h, shield = s, kind = MinionClass\<rparr>"

definition Wyrm :: "int \<Rightarrow> int \<Rightarrow> minion" where
  "Wyrm h s = \<lparr>health = h, shield = s, kind = WyrmClass\<rparr>"

definition Raptor :: "int \<Rightarrow> int \<Rightarrow> minion" where
  "Raptor h s = \<lparr>health = h, shield = s, kind = RaptorClass\<rparr>"

text \<open>
  The card classes, with the attributes their constructors set. A Fireball carries its
  \<open>_turns_in_hand\<close>; its symbol and effect are recomputed from it by \<open>increment_turn\<close>,
  so they are functions of it here.
\<close>

datatype card = Card | Shield | Heal | Fireball int | MinionCard minion

datatype effect_key = DAMAGE | HEALTH | SHIELD

type_synonym effect = "effect_key \<Rightarrow> int option"

definition minion_effect :: "minion \<Rightarrow> effect" where
  \<comment> \<open>Raptor.get_effect stores the live health under DAMAGE each time it is read.\<close>
  "minion_effect mn =
     (case kind mn of
        MinionClass \<Rightarrow> Map.empty
      | WyrmClass \<Rightarrow> [HEALTH \<mapsto> 1, SHIELD \<mapsto> 1]
      | RaptorClass \<Rightarrow> [DAMAGE \<mapsto> health mn])"

fun get_effect :: "card \<Rightarrow> effect" where
  "get_effect Card = Map.empty"
| "get_effect Shield = [SHIELD \<mapsto> 5]"
| "get_effect Heal = [HEALTH \<mapsto> 2]"
| "get_effect (Fireball turns_in_hand) = [DAMAGE \<mapsto> turns_in_hand + 3]"
| "get_effect (MinionCard mn) = minion_effect mn"

fun get_cost :: "card \<Rightarrow> int" where
  "get_cost Card = 1"
| "get_cost Shield = 1"
| "get_cost Heal = 2"
| "get_cost (Fireball turns_in_hand) = 3"
| "get_cost (MinionCard mn) = 2"

fun is_permanent :: "card \<Rightarrow> bool" where
  "is_permanent (MinionCard mn) = True"
| "is_permanent c = False"

text \<open>\<open>type(card).__name__\<close>: the name of the card's class.\<close>

definition minion_type_name :: "minion_class \<Rightarrow> string" where
  "minion_type_name k =
     (case k of MinionClass \<Rightarrow> ''Minion'' | WyrmClass \<Rightarrow> ''Wyrm'' | RaptorClass \<Rightarrow> ''Raptor'')"

fun type_name :: "card \<Rightarrow> string" where
  "type_name Card = ''Card''"
| "type_name Shield = ''Shield''"
| "type_name Heal = ''Heal''"
| "type_name (Fireball turns_in_hand) = ''Fireball''"
| "type_name (MinionCard mn) = minion_type_name (kind mn)"

text \<open>
  \<open>card.get_name() == FIREBALL_NAME\<close>: the names of the seven classes are pairwise
  different (support.py), so the test holds of Fireballs only.
\<close>

fun is_fireball :: "card \<Rightarrow> bool" where
  "is_fireball (Fireball turns_in_hand) = True"
| "is_fireball c = False"

fun increment_turn :: "card \<Rightarrow> card" where
  "increment_turn (Fireball turns_in_hand) = Fireball (turns_in_hand + 1)"
| "increment_turn c = c"

section \<open>Heroes (classes CardDeck and Hero)\<close>

text \<open>
  A CardDeck is its list of cards, the top of the deck first. A Hero is an Entity with
  an energy level, an energy capacity, a deck and a hand.
\<close>

record hero = entity +
  energy_capacity :: int
  energy :: int
  deck :: "card list"
  hand :: "card list"

text \<open>
  The constructor \<open>Hero(health, shield, max_energy, deck, hand)\<close>: a new hero has its
  energy at capacity.
\<close>

definition Hero :: "int \<Rightarrow> int \<Rightarrow> int \<Rightarrow> card list \<Rightarrow> card list \<Rightarrow> hero" where
  "Hero h s max_energy cards in_hand =
     \<lparr>health = h, shield = s, energy_capacity = max_energy, energy = max_energy,
      deck = cards, hand = in_hand\<rparr>"

definition remaining_count :: "card list \<Rightarrow> nat" where
  "remaining_count cards = length cards"

definition add_card :: "card \<Rightarrow> card list \<Rightarrow> card list" where
  "add_card c cards = cards @ [c]"

text \<open>
  Hero.is_alive overrides Entity.is_alive: the health is above 0 and the deck holds a card.
\<close>

definition hero_is_alive :: "hero \<Rightarrow> bool" where
  "hero_is_alive h = (is_alive h \<and> remaining_count (deck h) > 0)"

text \<open>
  Hero.spend_energy returns whether the energy was spent, and the hero afterwards.
\<close>

definition spend_energy :: "int \<Rightarrow> hero \<Rightarrow> bool \<times> hero" where
  "spend_energy n h =
     (if n \<le> energy h then (True, h\<lparr>energy := energy h - n\<rparr>) else (False, h))"

text \<open>
  CardDeck.draw_cards. When \<open>num\<close> does not exceed the size of the deck the source takes the
  slice \<open>cards[0:num]\<close> and deletes it. A Python slice \<open>[0:num]\<close> of a list of \<open>n\<close>
  elements stops at \<open>num\<close> when \<open>0 \<le> num\<close> (at most \<open>n\<close>), and at \<open>n + num\<close>
  (at least 0) when \<open>num\<close> is negative. The result is the cards drawn and the deck left.
\<close>

definition slice_stop :: "int \<Rightarrow> nat \<Rightarrow> nat" where
  "slice_stop num n = (if num < 0 then nat (int n + num) else min (nat num) n)"

definition draw_cards :: "int \<Rightarrow> card list \<Rightarrow> card list \<times> card list" where
  "draw_cards num cards =
     (if num > int (length cards) then (cards, [])
      else (take (slice_stop num (length cards)) cards,
            drop (slice_stop num (length cards)) cards))"

text \<open>
  \<^verbatim>\<open>
  for card in self._hand:
      if card.get_name() == FIREBALL_NAME:
          card.increment_turn()
  _num_to_draw = 5 - len(self._hand)
  self._hand += self._deck.draw_cards(_num_to_draw)
  self._energy_capacity += 1
  self._energy = self._energy_capacity
  \<close>
  A card object stands at one place of one hand or deck (what load_game builds and every
  operation keeps), so the cards are values and the first loop is a map over the hand.
\<close>

definition new_turn :: "hero \<Rightarrow> hero" where
  "new_turn h =
     (let aged = map (\<lambda>c. if is_fireball c then increment_turn c else c) (hand h);
          num_to_draw = 5 - int (length aged);
          drawn = draw_cards num_to_draw (deck h);
          h1 = h\<lparr>deck := snd drawn, hand := aged @ fst drawn\<rparr>;
          h2 = h1\<lparr>energy_capacity := energy_capacity h1 + 1\<rparr>
      in h2\<lparr>energy := energy_capacity h2\<rparr>)"

section \<open>Targeting (choose_target of Minion, Wyrm and Raptor)\<close>

text \<open>
  choose_target returns one of the entities it is given. The entities are different
  objects, so the one returned is named by where it stands: the allied hero, the enemy
  hero, the minion at a position of one of the two lists, or the minion itself.
\<close>

datatype chosen = AllyHero | EnemyHero | AllyMinion nat | EnemyMinion nat | Itself

text \<open>
  \<^verbatim>\<open>
  _lowest_health = ally_hero
  for minion in ally_minions:
      if minion.get_health() < _lowest_health.get_health():
          _lowest_health = minion
  return _lowest_health
  \<close>
  The loop carries the entity chosen so far and its health; \<open>i\<close> is the position of the
  minion the loop is at.
\<close>

fun wyrm_scan :: "minion list \<Rightarrow> nat \<Rightarrow> chosen \<times> int \<Rightarrow> chosen \<times> int" where
  "wyrm_scan [] i lowest = lowest"
| "wyrm_scan (mn # rest) i lowest =
     wyrm_scan rest (Suc i)
       (if get_health mn < snd lowest then (AllyMinion i, get_health mn) else lowest)"

definition wyrm_choose_target :: "hero \<Rightarrow> hero \<Rightarrow> minion list \<Rightarrow> minion list \<Rightarrow> chosen" where
  "wyrm_choose_target ally_hero enemy_hero ally_minions enemy_minions =
     fst (wyrm_scan ally_minions 0 (AllyHero, get_health ally_hero))"

text \<open>
  \<^verbatim>\<open>
  if len(enemy_minions) > 0:
      _highest_health = enemy_minions[0]
      for minion in enemy_minions:
          if minion.get_health() > _highest_health.get_health():
              _highest_health = minion
      return _highest_health
  else:
      return enemy_hero
  \<close>
\<close>

fun raptor_scan :: "minion list \<Rightarrow> nat \<Rightarrow> chosen \<times> int \<Rightarrow> chosen \<times> int" where
  "raptor_scan [] i highest = highest"
| "raptor_scan (mn # rest) i highest =
     raptor_scan rest (Suc i)
       (if get_health mn > snd highest then (EnemyMinion i, get_health mn) else highest)"

definition raptor_choose_target :: "hero \<Rightarrow> hero \<Rightarrow> minion list \<Rightarrow> minion list \<Rightarrow> chosen" where
  "raptor_choose_target ally_hero enemy_hero ally_minions enemy_minions =
     (case enemy_minions of
        [] \<Rightarrow> EnemyHero
      | first # rest \<Rightarrow> fst (raptor_scan enemy_minions 0 (EnemyMinion 0, get_health first)))"

text \<open>The method is chosen by the class of the minion; a generic Minion returns itself.\<close>

definition choose_target :: "minion \<Rightarrow> hero \<Rightarrow> hero \<Rightarrow> minion list \<Rightarrow> minion list \<Rightarrow> chosen" where
  "choose_target self ally_hero enemy_hero ally_minions enemy_minions =
     (case kind self of
        MinionClass \<Rightarrow> Itself
      | WyrmClass \<Rightarrow> wyrm_choose_target ally_hero enemy_hero ally_minions enemy_minions
      | RaptorClass \<Rightarrow> raptor_choose_target ally_hero enemy_hero ally_minions enemy_minions)"

section \<open>The game (class HearthModel)\<close>

record model =
  player :: hero
  active_player_minions :: "minion list"
  enemy :: hero
  active_enemy_minions :: "minion list"

definition HearthModel :: "hero \<Rightarrow> minion list \<Rightarrow> hero \<Rightarrow> minion list \<Rightarrow> model" where
  "HearthModel p p_minions e e_minions =
     \<lparr>player = p, active_player_minions = p_minions,
      enemy = e, active_enemy_minions = e_minions\<rparr>"

definition has_won :: "model \<Rightarrow> bool" where
  "has_won m = (hero_is_alive (player m) \<and> \<not> hero_is_alive (enemy m))"

definition has_lost :: "model \<Rightarrow> bool" where
  "has_lost m = (\<not> hero_is_alive (player m))"

section \<open>Effects (HearthModel._remove_defeated_minions and HearthModel._use_effect)\<close>

text \<open>
  A Minion object is changed in place, while the lists that hold it are rebuilt by
  \<open>_remove_defeated_minions\<close> and while a for loop of end_turn still runs over the list
  it started on. Where effects are resolved the Minion objects are therefore kept in a
  table and named by their position in it; the two rosters are lists of such names.
  A game state enters this form with its minions in roster order and leaves it by reading
  every roster entry back. (Each Minion object stands at one place of one roster.)
\<close>

record arena =
  arena_player :: hero
  arena_enemy :: hero
  objects :: "minion list"
  player_slots :: "nat list"
  enemy_slots :: "nat list"

definition enter :: "model \<Rightarrow> arena" where
  "enter m =
     \<lparr>arena_player = player m,
      arena_enemy = enemy m,
      objects = active_player_minions m @ active_enemy_minions m,
      player_slots = [0 ..< length (active_player_minions m)],
      enemy_slots = [length (active_player_minions m) ..<
                     length (active_player_minions m) + length (active_enemy_minions m)]\<rparr>"

definition leave :: "arena \<Rightarrow> model" where
  "leave a =
     \<lparr>player = arena_player a,
      active_player_minions = map (\<lambda>k. objects a ! k) (player_slots a),
      enemy = arena_enemy a,
      active_enemy_minions = map (\<lambda>k. objects a ! k) (enemy_slots a)\<rparr>"

text \<open>
  An entity an effect can land on: one of the two heroes, a Minion object of the table,
  or an entity that is no part of the game state (the effect on it is not seen).
\<close>

datatype entity_ref = PlayerRef | EnemyRef | MinionRef nat | Outside

text \<open>The card whose effect is used: a card value, or a Minion object of the table.\<close>

datatype effect_source = OfCard card | OfMinion nat

definition effect_of :: "effect_source \<Rightarrow> arena \<Rightarrow> effect" where
  "effect_of src a =
     (case src of OfCard c \<Rightarrow> get_effect c | OfMinion k \<Rightarrow> minion_effect (objects a ! k))"

definition apply_kind :: "effect_key \<Rightarrow> int \<Rightarrow> 'a entity_scheme \<Rightarrow> 'a entity_scheme" where
  "apply_kind key n e =
     (case key of DAMAGE \<Rightarrow> apply_damage n e | HEALTH \<Rightarrow> apply_health n e | SHIELD \<Rightarrow> apply_shield n e)"

definition affect :: "entity_ref \<Rightarrow> effect_key \<Rightarrow> int \<Rightarrow> arena \<Rightarrow> arena" where
  "affect target key n a =
     (case target of
        PlayerRef \<Rightarrow> a\<lparr>arena_player := apply_kind key n (arena_player a)\<rparr>
      | EnemyRef \<Rightarrow> a\<lparr>arena_enemy := apply_kind key n (arena_enemy a)\<rparr>
      | MinionRef k \<Rightarrow> a\<lparr>objects := (objects a)[k := apply_kind key n (objects a ! k)]\<rparr>
      | Outside \<Rightarrow> a)"

definition remove_defeated_minions :: "arena \<Rightarrow> arena" where
  "remove_defeated_minions a =
     a\<lparr>player_slots := filter (\<lambda>k. is_alive (objects a ! k)) (player_slots a),
       enemy_slots := filter (\<lambda>k. is_alive (objects a ! k)) (enemy_slots a)\<rparr>"

text \<open>
  \<^verbatim>\<open>
  self._remove_defeated_minions()
  if DAMAGE in card.get_effect():
      target.apply_damage(card.get_effect()[DAMAGE])
  if HEALTH in card.get_effect():
      target.apply_health(card.get_effect()[HEALTH])
  if SHIELD in card.get_effect():
      target.apply_shield(card.get_effect()[SHIELD])
  self._remove_defeated_minions()
  \<close>
\<close>

definition use_effect :: "effect_source \<Rightarrow> entity_ref \<Rightarrow> arena \<Rightarrow> arena" where
  "use_effect src target a =
     (let a1 = remove_defeated_minions a;
          a2 = (case effect_of src a1 DAMAGE of Some n \<Rightarrow> affect target DAMAGE n a1 | None \<Rightarrow> a1);
          a3 = (case effect_of src a2 HEALTH of Some n \<Rightarrow> affect target HEALTH n a2 | None \<Rightarrow> a2);
          a4 = (case effect_of src a3 SHIELD of Some n \<Rightarrow> affect target SHIELD n a3 | None \<Rightarrow> a3)
      in remove_defeated_minions a4)"

section \<open>Playing and discarding (HearthModel.play_card and HearthModel.discard_card)\<close>

datatype error = IndexError | ValueError | TypeError | NotInHand

text \<open>
  The target of a played card, as the controller resolves it: a hero, or the minion at a
  slot of a roster. A slot that holds no minion names an entity outside the game state.
\<close>

datatype target = OnPlayer | OnEnemy | OnPlayerMinion nat | OnEnemyMinion nat

definition locate :: "model \<Rightarrow> target \<Rightarrow> entity_ref" where
  "locate m t =
     (case t of
        OnPlayer \<Rightarrow> PlayerRef
      | OnEnemy \<Rightarrow> EnemyRef
      | OnPlayerMinion j \<Rightarrow>
          (if j < length (active_player_minions m) then MinionRef j else Outside)
      | OnEnemyMinion j \<Rightarrow>
          (if j < length (active_enemy_minions m)
           then MinionRef (length (active_player_minions m) + j) else Outside))"

definition use_card :: "card \<Rightarrow> entity_ref \<Rightarrow> model \<Rightarrow> model" where
  "use_card c ref m = leave (use_effect (OfCard c) ref (enter m))"

text \<open>
  Both play_card and end_turn place a permanent card with
  \<^verbatim>\<open>
  if len(minions) == 5:
      minions.pop(0)
  minions.append(card)
  \<close>
\<close>

definition place_minion :: "minion \<Rightarrow> minion list \<Rightarrow> minion list" where
  "place_minion mn minions = (if length minions = 5 then tl minions else minions) @ [mn]"

definition remove_at :: "nat \<Rightarrow> 'a list \<Rightarrow> 'a list" where
  "remove_at i xs = take i xs @ drop (Suc i) xs"

text \<open>
  play_card. The card is an object of the player's hand, named by its position \<open>i\<close>
  there; \<open>hand.remove(card)\<close> deletes that object, so that position. A position outside
  the hand names no card of the game state (\<open>NotInHand\<close>: what the source does with a
  foreign card depends on the cost of that card). is_permanent holds of the Minion
  cards only. After the append the source runs
  \<^verbatim>\<open>
  while len(self._active_player_minions) > 5:
      self._active_player_minions.pop[0]
  \<close>
  whose body subscripts the method \<open>pop\<close>: a TypeError, once the loop is entered.
\<close>

definition play_card :: "model \<Rightarrow> nat \<Rightarrow> target \<Rightarrow> error + bool \<times> model" where
  "play_card m i target =
     (if i < length (hand (player m)) then
        (let c = hand (player m) ! i;
             spent = spend_energy (get_cost c) (player m)
         in if fst spent then
              (let m1 = m\<lparr>player := (snd spent)\<lparr>hand := remove_at i (hand (snd spent))\<rparr>\<rparr>
               in case c of
                    MinionCard mn \<Rightarrow>
                      (let minions = place_minion mn (active_player_minions m1)
                       in if length minions > 5 then Inl TypeError
                          else Inr (True, m1\<lparr>active_player_minions := minions\<rparr>))
                  | _ \<Rightarrow> Inr (True, use_card c (locate m1 target) m1))
            else Inr (False, m))
      else Inl NotInHand)"

text \<open>
  discard_card adds the card to the bottom of the deck and then removes it from the hand;
  \<open>remove\<close> raises ValueError for a card that is not in the hand.
\<close>

definition discard_card :: "model \<Rightarrow> nat \<Rightarrow> error + model" where
  "discard_card m i =
     (if i < length (hand (player m)) then
        Inr (m\<lparr>player := (player m)\<lparr>deck := add_card (hand (player m) ! i) (deck (player m)),
                                    hand := remove_at i (hand (player m))\<rparr>\<rparr>)
      else Inl ValueError)"

section \<open>Ending the turn (HearthModel.end_turn)\<close>

text \<open>
  The entity a minion chose, as an entity of the table: \<open>self\<close> is the name of the
  minion, the heroes and the rosters are given in the order choose_target received them.
\<close>

definition entity_chosen ::
    "chosen \<Rightarrow> nat \<Rightarrow> entity_ref \<Rightarrow> entity_ref \<Rightarrow> nat list \<Rightarrow> nat list \<Rightarrow> entity_ref" where
  "entity_chosen ch self ally_hero enemy_hero ally_slots foe_slots =
     (case ch of
        AllyHero \<Rightarrow> ally_hero
      | EnemyHero \<Rightarrow> enemy_hero
      | AllyMinion j \<Rightarrow> MinionRef (ally_slots ! j)
      | EnemyMinion j \<Rightarrow> MinionRef (foe_slots ! j)
      | Itself \<Rightarrow> MinionRef self)"

text \<open>
  \<^verbatim>\<open>
  for _minion in self._active_player_minions:
      _target = _minion.choose_target(
          self._player, self._enemy,
          self._active_player_minions, self._active_enemy_minions)
      self._use_effect(_minion, _target)
  \<close>
  The loop runs over the list it started on; the rosters given to choose_target are the
  current ones.
\<close>

definition player_minion_acts :: "arena \<Rightarrow> nat \<Rightarrow> arena" where
  "player_minion_acts a k =
     (let ch = choose_target (objects a ! k) (arena_player a) (arena_enemy a)
                 (map (\<lambda>j. objects a ! j) (player_slots a))
                 (map (\<lambda>j. objects a ! j) (enemy_slots a))
      in use_effect (OfMinion k)
           (entity_chosen ch k PlayerRef EnemyRef (player_slots a) (enemy_slots a)) a)"

definition player_minions_act :: "model \<Rightarrow> model" where
  "player_minions_act m = leave (foldl player_minion_acts (enter m) (player_slots (enter m)))"

definition enemy_minion_acts :: "arena \<Rightarrow> nat \<Rightarrow> arena" where
  "enemy_minion_acts a k =
     (let ch = choose_target (objects a ! k) (arena_enemy a) (arena_player a)
                 (map (\<lambda>j. objects a ! j) (enemy_slots a))
                 (map (\<lambda>j. objects a ! j) (player_slots a))
      in use_effect (OfMinion k)
           (entity_chosen ch k EnemyRef PlayerRef (enemy_slots a) (player_slots a)) a)"

definition enemy_minions_act :: "model \<Rightarrow> model" where
  "enemy_minions_act m = leave (foldl enemy_minion_acts (enter m) (enemy_slots (enter m)))"

text \<open>
  The enemy plays the card \<open>c\<close> it found at position \<open>i\<close> of its hand, its energy
  already spent:
  \<^verbatim>\<open>
  if _card.is_permanent():
      if len(self._active_enemy_minions) == 5:
          self._active_enemy_minions.pop(0)
      self._active_enemy_minions.append(_card)
  else:
      if DAMAGE in _card.get_effect():
          self._use_effect(_card, self._player)
      else:
          self._use_effect(_card, self._enemy)
  _played_cards.append(type(_card).__name__)
  self._enemy.get_hand().remove(_card)
  \<close>
\<close>

definition enemy_plays :: "card \<Rightarrow> nat \<Rightarrow> model \<Rightarrow> model" where
  "enemy_plays c i m =
     (let m1 = (case c of
                  MinionCard mn \<Rightarrow>
                    m\<lparr>active_enemy_minions := place_minion mn (active_enemy_minions m)\<rparr>
                | _ \<Rightarrow>
                    (if get_effect c DAMAGE \<noteq> None then use_card c PlayerRef m
                     else use_card c EnemyRef m))
      in m1\<lparr>enemy := (enemy m1)\<lparr>hand := remove_at i (hand (enemy m1))\<rparr>\<rparr>)"

text \<open>
  One run of the for loop over the enemy's hand: \<open>cards\<close> is the part of the hand the loop
  has not reached, \<open>skipped\<close> counts the cards it passed (so it is the position of the
  card the loop is at). The loop ends at the first card that is played.
\<close>

fun scan_hand :: "card list \<Rightarrow> nat \<Rightarrow> model \<Rightarrow> string list \<Rightarrow> nat \<times> model \<times> string list" where
  "scan_hand [] skipped m played = (skipped, m, played)"
| "scan_hand (c # cards) skipped m played =
     (if fst (spend_energy (get_cost c) (enemy m))
      then (skipped,
            enemy_plays c skipped (m\<lparr>enemy := snd (spend_energy (get_cost c) (enemy m))\<rparr>),
            played @ [type_name c])
      else scan_hand cards (skipped + 1) m played)"

text \<open>
  What resolving an effect leaves alone: it changes the health and shield of its target
  and shortens the rosters, and nothing else. (Used for the termination of the enemy's
  loop below.)
\<close>

lemma apply_kind_frame [simp]:
  "energy (apply_kind key n h) = energy h"
  "energy_capacity (apply_kind key n h) = energy_capacity h"
  "deck (apply_kind key n h) = deck h"
  "hand (apply_kind key n h) = hand h"
  by (cases key; simp add: apply_kind_def apply_damage_def apply_health_def apply_shield_def Let_def)+

lemma affect_frame [simp]:
  "energy (arena_player (affect t key n a)) = energy (arena_player a)"
  "energy_capacity (arena_player (affect t key n a)) = energy_capacity (arena_player a)"
  "deck (arena_player (affect t key n a)) = deck (arena_player a)"
  "hand (arena_player (affect t key n a)) = hand (arena_player a)"
  "energy (arena_enemy (affect t key n a)) = energy (arena_enemy a)"
  "energy_capacity (arena_enemy (affect t key n a)) = energy_capacity (arena_enemy a)"
  "deck (arena_enemy (affect t key n a)) = deck (arena_enemy a)"
  "hand (arena_enemy (affect t key n a)) = hand (arena_enemy a)"
  "player_slots (affect t key n a) = player_slots a"
  "enemy_slots (affect t key n a) = enemy_slots a"
  "length (objects (affect t key n a)) = length (objects a)"
  by (cases t; simp add: affect_def)+

lemma remove_defeated_frame [simp]:
  "arena_player (remove_defeated_minions a) = arena_player a"
  "arena_enemy (remove_defeated_minions a) = arena_enemy a"
  "objects (remove_defeated_minions a) = objects a"
  by (simp_all add: remove_defeated_minions_def)

lemma remove_defeated_slots:
  "length (player_slots (remove_defeated_minions a)) \<le> length (player_slots a)"
  "length (enemy_slots (remove_defeated_minions a)) \<le> length (enemy_slots a)"
  by (simp_all add: remove_defeated_minions_def)

lemma use_effect_frame [simp]:
  "energy (arena_player (use_effect src t a)) = energy (arena_player a)"
  "energy_capacity (arena_player (use_effect src t a)) = energy_capacity (arena_player a)"
  "deck (arena_player (use_effect src t a)) = deck (arena_player a)"
  "hand (arena_player (use_effect src t a)) = hand (arena_player a)"
  "energy (arena_enemy (use_effect src t a)) = energy (arena_enemy a)"
  "energy_capacity (arena_enemy (use_effect src t a)) = energy_capacity (arena_enemy a)"
  "deck (arena_enemy (use_effect src t a)) = deck (arena_enemy a)"
  "hand (arena_enemy (use_effect src t a)) = hand (arena_enemy a)"
  "length (objects (use_effect src t a)) = length (objects a)"
  by (simp_all add: use_effect_def Let_def split: option.splits)

lemma use_effect_slots:
  "length (player_slots (use_effect src t a)) \<le> length (player_slots a)"
  "length (enemy_slots (use_effect src t a)) \<le> length (enemy_slots a)"
proof -
  have p: "\<And>b. length (player_slots (remove_defeated_minions b)) \<le> length (player_slots b)"
    and e: "\<And>b. length (enemy_slots (remove_defeated_minions b)) \<le> length (enemy_slots b)"
    by (simp_all add: remove_defeated_minions_def)
  have mid: "\<And>b key n. player_slots (affect t key n b) = player_slots b"
    "\<And>b key n. enemy_slots (affect t key n b) = enemy_slots b"
    by simp_all
  show "length (player_slots (use_effect src t a)) \<le> length (player_slots a)"
    unfolding use_effect_def Let_def
    by (rule order_trans [OF p]) (simp add: p split: option.splits)
  show "length (enemy_slots (use_effect src t a)) \<le> length (enemy_slots a)"
    unfolding use_effect_def Let_def
    by (rule order_trans [OF e]) (simp add: e split: option.splits)
qed

lemma use_card_frame [simp]:
  "energy (player (use_card c t m)) = energy (player m)"
  "energy_capacity (player (use_card c t m)) = energy_capacity (player m)"
  "deck (player (use_card c t m)) = deck (player m)"
  "hand (player (use_card c t m)) = hand (player m)"
  "energy (enemy (use_card c t m)) = energy (enemy m)"
  "energy_capacity (enemy (use_card c t m)) = energy_capacity (enemy m)"
  "deck (enemy (use_card c t m)) = deck (enemy m)"
  "hand (enemy (use_card c t m)) = hand (enemy m)"
  by (simp_all add: use_card_def leave_def enter_def)

lemma use_card_minions:
  "length (active_player_minions (use_card c t m)) \<le> length (active_player_minions m)"
  "length (active_enemy_minions (use_card c t m)) \<le> length (active_enemy_minions m)"
  using use_effect_slots [of "OfCard c" t "enter m"]
  by (simp_all add: use_card_def leave_def) (simp_all add: enter_def)

lemma length_remove_at: "i < length xs \<Longrightarrow> length (remove_at i xs) = length xs - 1"
  by (simp add: remove_at_def)

lemma enemy_plays_hand:
  "hand (enemy (enemy_plays c i m)) = remove_at i (hand (enemy m))"
  "energy (enemy (enemy_plays c i m)) = energy (enemy m)"
  by (cases c; simp add: enemy_plays_def Let_def)+

lemma scan_hand_cases:
  "scan_hand cards skipped m played = (skipped', m', played') \<Longrightarrow>
     (skipped' = skipped + length cards \<and> m' = m \<and> played' = played)
   \<or> (skipped' < skipped + length cards
        \<and> hand (enemy m') = remove_at skipped' (hand (enemy m)))"
proof (induction cards arbitrary: skipped)
  case Nil
  then show ?case by simp
next
  case (Cons c cards)
  show ?case
  proof (cases "fst (spend_energy (get_cost c) (enemy m))")
    case True
    with Cons.prems show ?thesis
      by (auto simp: enemy_plays_hand spend_energy_def split: if_splits)
  next
    case False
    with Cons.prems have "scan_hand cards (skipped + 1) m played = (skipped', m', played')"
      by simp
    from Cons.IH [OF this] show ?thesis by auto
  qed
qed

text \<open>
  \<^verbatim>\<open>
  _played_cards = []
  _playing_cards = True
  while _playing_cards:
      _skipped_cards = 0
      for _card in self._enemy.get_hand():
          ...
      if _skipped_cards >= len(self._enemy.get_hand()):
          _playing_cards = False
  \<close>
  Each pass either plays a card, and the hand is one card shorter, or passes every card
  of the hand, and the loop stops.
\<close>

function enemy_card_loop :: "model \<Rightarrow> string list \<Rightarrow> model \<times> string list" where
  "enemy_card_loop m played =
     (case scan_hand (hand (enemy m)) 0 m played of
        (skipped, m', played') \<Rightarrow>
          if skipped \<ge> length (hand (enemy m')) then (m', played')
          else enemy_card_loop m' played')"
  by pat_completeness auto
termination
proof (relation "measure (\<lambda>(m, played). length (hand (enemy m)))")
  show "wf (measure (\<lambda>(m, played). length (hand (enemy m))))" by simp
next
  fix m :: model and played :: "string list" and skipped y m' played'
  assume run: "(skipped, y) = scan_hand (hand (enemy m)) 0 m played" "(m', played') = y"
    and go: "\<not> length (hand (enemy m')) \<le> skipped"
  from run have "scan_hand (hand (enemy m)) 0 m played = (skipped, m', played')" by simp
  from scan_hand_cases [OF this] go
  have "skipped < length (hand (enemy m)) \<and> hand (enemy m') = remove_at skipped (hand (enemy m))"
    by auto
  then show "((m', played'), (m, played)) \<in> measure (\<lambda>(m, played). length (hand (enemy m)))"
    using length_remove_at [of skipped "hand (enemy m)"] by auto
qed

declare enemy_card_loop.simps [simp del]

text \<open>
  The state when the enemy's turn begins: the player's minions have acted and
  \<open>self._enemy.new_turn()\<close> has run.
\<close>

definition enemy_turn_begins :: "model \<Rightarrow> model" where
  "enemy_turn_begins m = (player_minions_act m)\<lparr>enemy := new_turn (enemy (player_minions_act m))\<rparr>"

text \<open>end_turn returns the names of the cards the enemy played, and the state afterwards.\<close>

definition end_turn :: "model \<Rightarrow> string list \<times> model" where
  "end_turn m =
     (let m2 = enemy_turn_begins m
      in if \<not> hero_is_alive (enemy m2) then ([], m2)
         else
           (let looped = enemy_card_loop m2 [];
                m3 = enemy_minions_act (fst looped);
                m4 = m3\<lparr>player := new_turn (player m3)\<rparr>
            in (snd looped, m4)))"

section \<open>The enemy's play order as the specification words it\<close>

text \<open>
  "Repeatedly scan the enemy hand from the first card; on finding a card whose cost the
  enemy can afford, play it, remove it from hand, record its type name, and restart the
  scan from the beginning of the hand. If a full scan completes with zero cards
  successfully played, stop." \<open>first_affordable\<close> is the position of the first card of
  the hand whose cost is at most the energy; playing a card costs its energy.
\<close>

fun first_affordable :: "int \<Rightarrow> card list \<Rightarrow> nat option" where
  "first_affordable e [] = None"
| "first_affordable e (c # cards) =
     (if get_cost c \<le> e then Some 0 else map_option Suc (first_affordable e cards))"

lemma first_affordable_Some:
  "first_affordable e cards = Some i \<Longrightarrow>
     i < length cards \<and> get_cost (cards ! i) \<le> e \<and> (\<forall>k<i. e < get_cost (cards ! k))"
proof (induction cards arbitrary: i)
  case Nil
  then show ?case by simp
next
  case (Cons c cards)
  show ?case
  proof (cases "get_cost c \<le> e")
    case True
    with Cons.prems show ?thesis by simp
  next
    case False
    with Cons.prems obtain j where j: "first_affordable e cards = Some j" "i = Suc j"
      by auto
    from Cons.IH [OF j(1)] False j(2) show ?thesis
      by (auto simp: nth_Cons split: nat.splits)
  qed
qed

function reference_policy :: "card list \<Rightarrow> int \<Rightarrow> string list" where
  "reference_policy cards e =
     (case first_affordable e cards of
        None \<Rightarrow> []
      | Some i \<Rightarrow>
          type_name (cards ! i) # reference_policy (remove_at i cards) (e - get_cost (cards ! i)))"
  by pat_completeness auto
termination
proof (relation "measure (\<lambda>(cards, e). length cards)")
  show "wf (measure (\<lambda>(cards, e). length cards))" by simp
next
  fix cards :: "card list" and e :: int and i
  assume "first_affordable e cards = Some i"
  then have "i < length cards" by (simp add: first_affordable_Some)
  then show "((remove_at i cards, e - get_cost (cards ! i)), (cards, e))
               \<in> measure (\<lambda>(cards, e). length cards)"
    using length_remove_at [of i cards] by auto
qed

declare reference_policy.simps [simp del]

section \<open>Saving and loading (the \<open>__str__\<close> methods and Hearthstone.load_game)\<close>

subsection \<open>Python's strings\<close>

text \<open>
  Strings are ASCII here. \<open>str(n)\<close> of an integer is its decimal numeral, with a minus sign
  for a negative one.
\<close>

definition digit_char :: "nat \<Rightarrow> char" where
  "digit_char d = ''0123456789'' ! (d mod 10)"

fun str_nat :: "nat \<Rightarrow> string" where
  "str_nat n = (if n < 10 then [digit_char n] else str_nat (n div 10) @ [digit_char n])"

declare str_nat.simps [simp del]

definition str_int :: "int \<Rightarrow> string" where
  "str_int i = (if i < 0 then CHR ''-'' # str_nat (nat (- i)) else str_nat (nat i))"

definition is_digit :: "char \<Rightarrow> bool" where
  "is_digit c = (c \<in> set ''0123456789'')"

text \<open>\<open>s.isdigit()\<close>: the string is not empty and all its characters are digits.\<close>

definition isdigit :: "string \<Rightarrow> bool" where
  "isdigit s = (s \<noteq> [] \<and> list_all is_digit s)"

text \<open>
  \<open>s.strip()\<close> removes the whitespace at both ends: the space, the characters 9 to 13
  and 28 to 31.
\<close>

definition is_space :: "char \<Rightarrow> bool" where
  "is_space c =
     (c \<in> set [CHR '' '', CHR 0x09, CHR 0x0A, CHR 0x0B, CHR 0x0C, CHR 0x0D,
                CHR 0x1C, CHR 0x1D, CHR 0x1E, CHR 0x1F])"

definition strip :: "string \<Rightarrow> string" where
  "strip s = rev (dropWhile is_space (rev (dropWhile is_space s)))"

text \<open>
  \<open>int(s)\<close> of an ASCII string skips the whitespace of C at both ends (the space and the
  characters 9 to 13 only, unlike \<open>strip\<close>), reads an optional sign and then decimal
  digits, where single underscores may stand between digits; anything else is a
  ValueError. (The interpreter's limit on the length of the numerals that \<open>str\<close> and
  \<open>int\<close> convert is left out.)
\<close>

definition is_c_space :: "char \<Rightarrow> bool" where
  "is_c_space c = (c \<in> set [CHR '' '', CHR 0x09, CHR 0x0A, CHR 0x0B, CHR 0x0C, CHR 0x0D])"

definition int_strip :: "string \<Rightarrow> string" where
  "int_strip s = rev (dropWhile is_c_space (rev (dropWhile is_c_space s)))"

definition digit_value :: "char \<Rightarrow> nat" where
  "digit_value c = of_char c - 48"

definition nat_of_digits :: "string \<Rightarrow> nat" where
  "nat_of_digits s = foldl (\<lambda>n c. 10 * n + digit_value c) 0 s"

fun no_double_underscore :: "string \<Rightarrow> bool" where
  "no_double_underscore (a # b # s) =
     (\<not> (a = CHR ''_'' \<and> b = CHR ''_'') \<and> no_double_underscore (b # s))"
| "no_double_underscore s = True"

definition valid_int_body :: "string \<Rightarrow> bool" where
  "valid_int_body s =
     (s \<noteq> [] \<and> is_digit (hd s) \<and> is_digit (last s)
      \<and> list_all (\<lambda>c. is_digit c \<or> c = CHR ''_'') s \<and> no_double_underscore s)"

definition py_int :: "string \<Rightarrow> error + int" where
  "py_int s =
     (case int_strip s of
        [] \<Rightarrow> Inl ValueError
      | c # rest \<Rightarrow>
          (let body = (if c = CHR ''-'' \<or> c = CHR ''+'' then rest else c # rest)
           in if valid_int_body body
              then Inr ((if c = CHR ''-'' then - 1 else 1)
                        * int (nat_of_digits (filter is_digit body)))
              else Inl ValueError))"

text \<open>
  \<open>s.split(sep)\<close> for a separator of one character: the pieces between the separators,
  so one piece more than there are separators. \<open>sep.join(pieces)\<close> is its inverse.
\<close>

fun split :: "char \<Rightarrow> string \<Rightarrow> string list" where
  "split sep [] = [[]]"
| "split sep (c # s) =
     (if c = sep then [] # split sep s
      else (case split sep s of
              piece # pieces \<Rightarrow> (c # piece) # pieces
            | [] \<Rightarrow> [[c]]))"

fun join :: "string \<Rightarrow> string list \<Rightarrow> string" where
  "join sep [] = []"
| "join sep [piece] = piece"
| "join sep (piece # pieces) = piece @ sep @ join sep pieces"

subsection \<open>Saving\<close>

definition minion_symbol :: "minion_class \<Rightarrow> string" where
  "minion_symbol k = (case k of MinionClass \<Rightarrow> ''M'' | WyrmClass \<Rightarrow> ''W'' | RaptorClass \<Rightarrow> ''R'')"

fun get_symbol :: "card \<Rightarrow> string" where
  "get_symbol Card = ''C''"
| "get_symbol Shield = ''S''"
| "get_symbol Heal = ''H''"
| "get_symbol (Fireball turns_in_hand) = str_int turns_in_hand"
| "get_symbol (MinionCard mn) = minion_symbol (kind mn)"

text \<open>\<open>CardDeck.__str__\<close>: the symbols of the cards, joined by commas.\<close>

definition deck_str :: "card list \<Rightarrow> string" where
  "deck_str cards = join '','' (map get_symbol cards)"

text \<open>
  \<open>Hero.__str__\<close>:
  \<^verbatim>\<open>
  _stats = f"{self._health},{self._shield},{self._energy_capacity}"
  _hand_symbols = ",".join([card.get_symbol() for card in self._hand])
  return f"{_stats};{str(self._deck)};{str(_hand_symbols)}"
  \<close>
\<close>

definition hero_str :: "hero \<Rightarrow> string" where
  "hero_str h =
     str_int (health h) @ '','' @ str_int (shield h) @ '','' @ str_int (energy_capacity h)
     @ '';'' @ deck_str (deck h) @ '';'' @ join '','' (map get_symbol (hand h))"

definition minion_info :: "minion \<Rightarrow> string" where
  "minion_info mn =
     minion_symbol (kind mn) @ '','' @ str_int (get_health mn) @ '','' @ str_int (get_shield mn)"

definition get_minion_info :: "minion list \<Rightarrow> string" where
  "get_minion_info minions = join '';'' (map minion_info minions)"

text \<open>\<open>HearthModel.__str__\<close>: the four parts, joined by bars.\<close>

definition model_str :: "model \<Rightarrow> string" where
  "model_str m =
     hero_str (player m) @ ''|'' @ get_minion_info (active_player_minions m) @ ''|''
     @ hero_str (enemy m) @ ''|'' @ get_minion_info (active_enemy_minions m)"

subsection \<open>Loading\<close>

text \<open>An exception ends the load: the first error is the result.\<close>

definition and_then :: "error + 'a \<Rightarrow> ('a \<Rightarrow> error + 'b) \<Rightarrow> error + 'b" where
  "and_then r f = (case r of Inl e \<Rightarrow> Inl e | Inr x \<Rightarrow> f x)"

text \<open>
  One pass of the loop of \<open>_generate_cards\<close>: the card a symbol stands for, none for a
  symbol that no branch of the \<open>if\<close> chain takes. A minion of a hand or deck is built
  with health 1 and shield 0.
\<close>

definition card_of_symbol :: "string \<Rightarrow> error + card option" where
  "card_of_symbol symbol =
     (if symbol = ''C'' then Inr (Some Card)
      else if symbol = ''S'' then Inr (Some Shield)
      else if symbol = ''H'' then Inr (Some Heal)
      else if isdigit symbol then and_then (py_int symbol) (\<lambda>n. Inr (Some (Fireball n)))
      else if symbol = ''M'' then Inr (Some (MinionCard (Minion 1 0)))
      else if symbol = ''R'' then Inr (Some (MinionCard (Raptor 1 0)))
      else if symbol = ''W'' then Inr (Some (MinionCard (Wyrm 1 0)))
      else Inr None)"

fun cards_of_symbols :: "string list \<Rightarrow> error + card list" where
  "cards_of_symbols [] = Inr []"
| "cards_of_symbols (symbol # symbols) =
     and_then (card_of_symbol symbol) (\<lambda>c.
     and_then (cards_of_symbols symbols) (\<lambda>cards.
       Inr (case c of None \<Rightarrow> cards | Some x \<Rightarrow> x # cards)))"

definition generate_cards :: "string \<Rightarrow> error + card list" where
  "generate_cards cards = cards_of_symbols (split CHR '','' cards)"

text \<open>
  \<^verbatim>\<open>
  _stats, _deck_symbols, _hand_symbols = hero.split(";")
  _health, _shield, _max_energy = _stats.split(",")
  _deck = CardDeck(self._generate_cards(_deck_symbols))
  _hand = self._generate_cards(_hand_symbols)
  return Hero(int(_health), int(_shield), int(_max_energy), _deck, _hand)
  \<close>
  Unpacking a list that does not have three elements is a ValueError.
\<close>

definition generate_hero :: "string \<Rightarrow> error + hero" where
  "generate_hero s =
     (case split CHR '';'' s of
        [stats, deck_symbols, hand_symbols] \<Rightarrow>
          (case split CHR '','' stats of
             [h, sh, max_energy] \<Rightarrow>
               and_then (generate_cards deck_symbols) (\<lambda>cards.
               and_then (generate_cards hand_symbols) (\<lambda>in_hand.
               and_then (py_int h) (\<lambda>h'.
               and_then (py_int sh) (\<lambda>sh'.
               and_then (py_int max_energy) (\<lambda>max_energy'.
                 Inr (Hero h' sh' max_energy' cards in_hand))))))
           | _ \<Rightarrow> Inl ValueError)
      | _ \<Rightarrow> Inl ValueError)"

text \<open>
  One pass of the loop of \<open>_generate_minions\<close>: the numbers are read only when the
  symbol is that of a minion class.
\<close>

definition minion_of_info :: "string \<Rightarrow> error + minion option" where
  "minion_of_info info =
     (case split CHR '','' info of
        [symbol, h, sh] \<Rightarrow>
          (if symbol = ''M'' then
             and_then (py_int h) (\<lambda>h'. and_then (py_int sh) (\<lambda>sh'. Inr (Some (Minion h' sh'))))
           else if symbol = ''R'' then
             and_then (py_int h) (\<lambda>h'. and_then (py_int sh) (\<lambda>sh'. Inr (Some (Raptor h' sh'))))
           else if symbol = ''W'' then
             and_then (py_int h) (\<lambda>h'. and_then (py_int sh) (\<lambda>sh'. Inr (Some (Wyrm h' sh'))))
           else Inr None)
      | _ \<Rightarrow> Inl ValueError)"

fun minions_of_infos :: "string list \<Rightarrow> error + minion list" where
  "minions_of_infos [] = Inr []"
| "minions_of_infos (info # infos) =
     and_then (minion_of_info info) (\<lambda>mn.
     and_then (minions_of_infos infos) (\<lambda>minions.
       Inr (case mn of None \<Rightarrow> minions | Some x \<Rightarrow> x # minions)))"

definition generate_minions :: "string \<Rightarrow> error + minion list" where
  "generate_minions minions =
     (if strip minions \<noteq> [] then minions_of_infos (split CHR '';'' minions) else Inr [])"

text \<open>
  load_game, from the line it read: \<open>_game_data = _game_state.split("|")\<close>, then the
  elements 0 to 3 of \<open>_game_data\<close> (an IndexError when there are fewer than 4) are handed
  to the generators.
\<close>

definition load_game :: "string \<Rightarrow> error + model" where
  "load_game game_state =
     (let game_data = split CHR ''|'' game_state
      in if length game_data < 4 then Inl IndexError
         else
           and_then (generate_hero (game_data ! 0)) (\<lambda>p.
           and_then (generate_minions (game_data ! 1)) (\<lambda>p_minions.
           and_then (generate_hero (game_data ! 2)) (\<lambda>e.
           and_then (generate_minions (game_data ! 3)) (\<lambda>e_minions.
             Inr (HearthModel p p_minions e e_minions))))))"

text \<open>
  What saving and loading does to a card of a hand or deck: a minion comes back with
  health 1 and shield 0, every other card as it was.
\<close>

definition reloaded_card :: "card \<Rightarrow> card" where
  "reloaded_card c =
     (case c of MinionCard mn \<Rightarrow> MinionCard \<lparr>health = 1, shield = 0, kind = kind mn\<rparr> | _ \<Rightarrow> c)"

definition reloaded_hero :: "hero \<Rightarrow> hero" where
  "reloaded_hero h =
     Hero (health h) (shield h) (energy_capacity h)
          (map reloaded_card (deck h)) (map reloaded_card (hand h))"

text \<open>
  A card of the catalog: a Fireball's \<open>turns_in_hand\<close> is "the number of turns that the
  card has spent in a hero's hand", so not negative.
\<close>

definition catalog_card :: "card \<Rightarrow> bool" where
  "catalog_card c = (case c of Fireball turns_in_hand \<Rightarrow> 0 \<le> turns_in_hand | _ \<Rightarrow> True)"

section \<open>Properties\<close>

subsection \<open>Damage\<close>

text \<open>
  C5. For an entity with health \<open>h \<ge> 0\<close> and shield \<open>s \<ge> 0\<close> and a damage \<open>d \<ge> 0\<close>,
  after apply_damage the health is \<open>max 0 (h - max 0 (d - s))\<close>, the shield is
  \<open>max 0 (s - d)\<close>, and the health is not negative.
\<close>

theorem apply_damage_clamped:
  assumes "0 \<le> health e" and "0 \<le> shield e" and "0 \<le> d"
  shows "health (apply_damage d e) = max 0 (health e - max 0 (d - shield e))
       \<and> shield (apply_damage d e) = max 0 (shield e - d)
       \<and> 0 \<le> health (apply_damage d e)"
  using assms by (auto simp: apply_damage_def Let_def)

theorem apply_damage_clamped_witness:
  "health (apply_damage 7 \<lparr>health = 2, shield = 3\<rparr>) = 0
 \<and> shield (apply_damage 7 \<lparr>health = 2, shield = 3\<rparr>) = 0
 \<and> health (apply_damage 2 \<lparr>health = 2, shield = 3\<rparr>) = 2
 \<and> shield (apply_damage 2 \<lparr>health = 2, shield = 3\<rparr>) = 1"
  using apply_damage_clamped [of "\<lparr>health = 2, shield = 3\<rparr>" 7]
        apply_damage_clamped [of "\<lparr>health = 2, shield = 3\<rparr>" 2]
  by simp

subsection \<open>Winning and losing\<close>

text \<open>
  C1 as stated (some game state makes has_won and has_lost both true) is false: has_won
  asks for a player who is alive, has_lost for one who is not.
\<close>

theorem no_simultaneous_win_and_loss: "\<not> (\<exists>m. has_won m \<and> has_lost m)"
  by (simp add: has_won_def has_lost_def)

text \<open>
  C1, amended. has_won is "the player is alive and the enemy is not", has_lost is "the
  player is not alive", each read from the liveness of the heroes alone; has_won is false
  in every state where has_lost is true, and when neither hero is alive the player has
  lost and has not won.
\<close>

theorem has_won_has_lost_exclusive:
  "has_won m = (hero_is_alive (player m) \<and> \<not> hero_is_alive (enemy m))
 \<and> has_lost m = (\<not> hero_is_alive (player m))
 \<and> (has_lost m \<longrightarrow> \<not> has_won m)
 \<and> (\<not> hero_is_alive (player m) \<and> \<not> hero_is_alive (enemy m) \<longrightarrow> has_lost m \<and> \<not> has_won m)"
  by (simp add: has_won_def has_lost_def)

theorem has_won_has_lost_exclusive_witness:
  "has_lost \<lparr>player = \<lparr>health = 0, shield = 0, energy_capacity = 1, energy = 1,
                        deck = [Shield], hand = []\<rparr>,
             active_player_minions = [],
             enemy = \<lparr>health = 0, shield = 0, energy_capacity = 1, energy = 1,
                       deck = [Shield], hand = []\<rparr>,
             active_enemy_minions = []\<rparr>
 \<and> \<not> has_won \<lparr>player = \<lparr>health = 0, shield = 0, energy_capacity = 1, energy = 1,
                          deck = [Shield], hand = []\<rparr>,
               active_player_minions = [],
               enemy = \<lparr>health = 0, shield = 0, energy_capacity = 1, energy = 1,
                         deck = [Shield], hand = []\<rparr>,
               active_enemy_minions = []\<rparr>"
  using has_won_has_lost_exclusive
    [of "\<lparr>player = \<lparr>health = 0, shield = 0, energy_capacity = 1, energy = 1,
                      deck = [Shield], hand = []\<rparr>,
           active_player_minions = [],
           enemy = \<lparr>health = 0, shield = 0, energy_capacity = 1, energy = 1,
                     deck = [Shield], hand = []\<rparr>,
           active_enemy_minions = []\<rparr>"]
  by (simp add: hero_is_alive_def is_alive_def)

subsection \<open>Targeting\<close>

lemma wyrm_scan_spec:
  "wyrm_scan ms i (b, bh) = (c, h) \<Longrightarrow>
     (c = b \<and> h = bh \<and> (\<forall>k<length ms. bh \<le> health (ms ! k)))
   \<or> (\<exists>j<length ms. c = AllyMinion (i + j) \<and> h = health (ms ! j) \<and> h < bh
         \<and> (\<forall>k<length ms. h \<le> health (ms ! k)) \<and> (\<forall>k<j. h < health (ms ! k)))"
proof (induction ms arbitrary: i b bh)
  case Nil
  then show ?case by simp
next
  case (Cons mn rest)
  show ?case
  proof (cases "health mn < bh")
    case True
    with Cons.prems have run: "wyrm_scan rest (Suc i) (AllyMinion i, health mn) = (c, h)"
      by (simp add: get_health_def)
    from Cons.IH [OF run] show ?thesis
    proof
      assume a: "c = AllyMinion i \<and> h = health mn \<and> (\<forall>k<length rest. health mn \<le> health (rest ! k))"
      have "\<forall>k<length (mn # rest). h \<le> health ((mn # rest) ! k)"
        using a by (auto simp: nth_Cons split: nat.splits)
      with a True have "0 < length (mn # rest) \<and> c = AllyMinion (i + 0) \<and> h = health ((mn # rest) ! 0) \<and> h < bh
         \<and> (\<forall>k<length (mn # rest). h \<le> health ((mn # rest) ! k)) \<and> (\<forall>k<0. h < health ((mn # rest) ! k))"
        by simp
      then show ?thesis by blast
    next
      assume "\<exists>j<length rest. c = AllyMinion (Suc i + j) \<and> h = health (rest ! j) \<and> h < health mn
         \<and> (\<forall>k<length rest. h \<le> health (rest ! k)) \<and> (\<forall>k<j. h < health (rest ! k))"
      then obtain j where j: "j < length rest" "c = AllyMinion (Suc i + j)" "h = health (rest ! j)"
        "h < health mn" "\<forall>k<length rest. h \<le> health (rest ! k)" "\<forall>k<j. h < health (rest ! k)"
        by blast
      have "Suc j < length (mn # rest) \<and> c = AllyMinion (i + Suc j) \<and> h = health ((mn # rest) ! Suc j) \<and> h < bh
         \<and> (\<forall>k<length (mn # rest). h \<le> health ((mn # rest) ! k)) \<and> (\<forall>k<Suc j. h < health ((mn # rest) ! k))"
        using j True by (auto simp: nth_Cons split: nat.splits)
      then show ?thesis by blast
    qed
  next
    case False
    with Cons.prems have run: "wyrm_scan rest (Suc i) (b, bh) = (c, h)"
      by (simp add: get_health_def)
    from Cons.IH [OF run] show ?thesis
    proof
      assume a: "c = b \<and> h = bh \<and> (\<forall>k<length rest. bh \<le> health (rest ! k))"
      then have "\<forall>k<length (mn # rest). bh \<le> health ((mn # rest) ! k)"
        using False by (auto simp: nth_Cons split: nat.splits)
      with a show ?thesis by blast
    next
      assume "\<exists>j<length rest. c = AllyMinion (Suc i + j) \<and> h = health (rest ! j) \<and> h < bh
         \<and> (\<forall>k<length rest. h \<le> health (rest ! k)) \<and> (\<forall>k<j. h < health (rest ! k))"
      then obtain j where j: "j < length rest" "c = AllyMinion (Suc i + j)" "h = health (rest ! j)"
        "h < bh" "\<forall>k<length rest. h \<le> health (rest ! k)" "\<forall>k<j. h < health (rest ! k)"
        by blast
      have "Suc j < length (mn # rest) \<and> c = AllyMinion (i + Suc j) \<and> h = health ((mn # rest) ! Suc j) \<and> h < bh
         \<and> (\<forall>k<length (mn # rest). h \<le> health ((mn # rest) ! k)) \<and> (\<forall>k<Suc j. h < health ((mn # rest) ! k))"
        using j False by (auto simp: nth_Cons split: nat.splits)
      then show ?thesis by blast
    qed
  qed
qed

lemma raptor_scan_spec:
  "raptor_scan ms i (b, bh) = (c, h) \<Longrightarrow>
     (c = b \<and> h = bh \<and> (\<forall>k<length ms. health (ms ! k) \<le> bh))
   \<or> (\<exists>j<length ms. c = EnemyMinion (i + j) \<and> h = health (ms ! j) \<and> bh < h
         \<and> (\<forall>k<length ms. health (ms ! k) \<le> h) \<and> (\<forall>k<j. health (ms ! k) < h))"
proof (induction ms arbitrary: i b bh)
  case Nil
  then show ?case by simp
next
  case (Cons mn rest)
  show ?case
  proof (cases "health mn > bh")
    case True
    with Cons.prems have run: "raptor_scan rest (Suc i) (EnemyMinion i, health mn) = (c, h)"
      by (simp add: get_health_def)
    from Cons.IH [OF run] show ?thesis
    proof
      assume a: "c = EnemyMinion i \<and> h = health mn \<and> (\<forall>k<length rest. health (rest ! k) \<le> health mn)"
      have "\<forall>k<length (mn # rest). health ((mn # rest) ! k) \<le> h"
        using a by (auto simp: nth_Cons split: nat.splits)
      with a True have "0 < length (mn # rest) \<and> c = EnemyMinion (i + 0) \<and> h = health ((mn # rest) ! 0) \<and> bh < h
         \<and> (\<forall>k<length (mn # rest). health ((mn # rest) ! k) \<le> h) \<and> (\<forall>k<0. health ((mn # rest) ! k) < h)"
        by simp
      then show ?thesis by blast
    next
      assume "\<exists>j<length rest. c = EnemyMinion (Suc i + j) \<and> h = health (rest ! j) \<and> health mn < h
         \<and> (\<forall>k<length rest. health (rest ! k) \<le> h) \<and> (\<forall>k<j. health (rest ! k) < h)"
      then obtain j where j: "j < length rest" "c = EnemyMinion (Suc i + j)" "h = health (rest ! j)"
        "health mn < h" "\<forall>k<length rest. health (rest ! k) \<le> h" "\<forall>k<j. health (rest ! k) < h"
        by blast
      have "Suc j < length (mn # rest) \<and> c = EnemyMinion (i + Suc j) \<and> h = health ((mn # rest) ! Suc j) \<and> bh < h
         \<and> (\<forall>k<length (mn # rest). health ((mn # rest) ! k) \<le> h) \<and> (\<forall>k<Suc j. health ((mn # rest) ! k) < h)"
        using j True by (auto simp: nth_Cons split: nat.splits)
      then show ?thesis by blast
    qed
  next
    case False
    with Cons.prems have run: "raptor_scan rest (Suc i) (b, bh) = (c, h)"
      by (simp add: get_health_def)
    from Cons.IH [OF run] show ?thesis
    proof
      assume a: "c = b \<and> h = bh \<and> (\<forall>k<length rest. health (rest ! k) \<le> bh)"
      then have "\<forall>k<length (mn # rest). health ((mn # rest) ! k) \<le> bh"
        using False by (auto simp: nth_Cons split: nat.splits)
      with a show ?thesis by blast
    next
      assume "\<exists>j<length rest. c = EnemyMinion (Suc i + j) \<and> h = health (rest ! j) \<and> bh < h
         \<and> (\<forall>k<length rest. health (rest ! k) \<le> h) \<and> (\<forall>k<j. health (rest ! k) < h)"
      then obtain j where j: "j < length rest" "c = EnemyMinion (Suc i + j)" "h = health (rest ! j)"
        "bh < h" "\<forall>k<length rest. health (rest ! k) \<le> h" "\<forall>k<j. health (rest ! k) < h"
        by blast
      have "Suc j < length (mn # rest) \<and> c = EnemyMinion (i + Suc j) \<and> h = health ((mn # rest) ! Suc j) \<and> bh < h
         \<and> (\<forall>k<length (mn # rest). health ((mn # rest) ! k) \<le> h) \<and> (\<forall>k<Suc j. health ((mn # rest) ! k) < h)"
        using j False by (auto simp: nth_Cons split: nat.splits)
      then show ?thesis by blast
    qed
  qed
qed

text \<open>
  C7. Wyrm.choose_target returns the allied entity of strictly lowest health: the ally
  hero exactly when no ally minion has a health below the hero's (the hero wins every
  tie), and otherwise the minion at the first position that holds the least health of
  the list (a later minion of equal health does not replace it). With a hero of health 10
  and two minions of health 10 the hero is chosen.
\<close>

theorem wyrm_targets_strictly_lowest_health:
  "(wyrm_choose_target ah eh ms ems = AllyHero \<longleftrightarrow> (\<forall>k<length ms. health ah \<le> health (ms ! k)))
 \<and> (wyrm_choose_target ah eh ms ems \<noteq> AllyHero \<longrightarrow>
      (\<exists>i<length ms. wyrm_choose_target ah eh ms ems = AllyMinion i
          \<and> health (ms ! i) < health ah
          \<and> (\<forall>k<length ms. health (ms ! i) \<le> health (ms ! k))
          \<and> (\<forall>k<i. health (ms ! i) < health (ms ! k))))"
proof -
  obtain c h where run: "wyrm_scan ms 0 (AllyHero, health ah) = (c, h)"
    by (cases "wyrm_scan ms 0 (AllyHero, health ah)") simp
  have res: "wyrm_choose_target ah eh ms ems = c"
    by (simp add: wyrm_choose_target_def run get_health_def)
  from wyrm_scan_spec [OF run] show ?thesis
  proof
    assume "c = AllyHero \<and> h = health ah \<and> (\<forall>k<length ms. health ah \<le> health (ms ! k))"
    then show ?thesis by (simp add: res)
  next
    assume "\<exists>j<length ms. c = AllyMinion (0 + j) \<and> h = health (ms ! j) \<and> h < health ah
         \<and> (\<forall>k<length ms. h \<le> health (ms ! k)) \<and> (\<forall>k<j. h < health (ms ! k))"
    then obtain j where j: "j < length ms" "c = AllyMinion j" "h = health (ms ! j)" "h < health ah"
      "\<forall>k<length ms. h \<le> health (ms ! k)" "\<forall>k<j. h < health (ms ! k)"
      by auto
    have "\<not> (\<forall>k<length ms. health ah \<le> health (ms ! k))"
      using j(1,3,4) by (auto intro: exI [of _ j])
    moreover have "\<exists>i<length ms. AllyMinion j = AllyMinion i
          \<and> health (ms ! i) < health ah
          \<and> (\<forall>k<length ms. health (ms ! i) \<le> health (ms ! k))
          \<and> (\<forall>k<i. health (ms ! i) < health (ms ! k))"
      using j by (intro exI [of _ j]) simp
    ultimately show ?thesis by (simp add: res j(2))
  qed
qed

theorem wyrm_targets_strictly_lowest_health_witness:
  "wyrm_choose_target \<lparr>health = 10, shield = 0, energy_capacity = 1, energy = 1, deck = [Shield], hand = []\<rparr> \<lparr>health = 10, shield = 0, energy_capacity = 1, energy = 1, deck = [Shield], hand = []\<rparr>
     [\<lparr>health = 10, shield = 0, kind = WyrmClass\<rparr>, \<lparr>health = 10, shield = 0, kind = RaptorClass\<rparr>] [] = AllyHero
 \<and> wyrm_choose_target \<lparr>health = 10, shield = 0, energy_capacity = 1, energy = 1, deck = [Shield], hand = []\<rparr> \<lparr>health = 10, shield = 0, energy_capacity = 1, energy = 1, deck = [Shield], hand = []\<rparr>
     [\<lparr>health = 12, shield = 0, kind = WyrmClass\<rparr>, \<lparr>health = 4, shield = 0, kind = MinionClass\<rparr>, \<lparr>health = 4, shield = 0, kind = WyrmClass\<rparr>] [] = AllyMinion 1"
  using wyrm_targets_strictly_lowest_health [of "\<lparr>health = 10, shield = 0, energy_capacity = 1, energy = 1, deck = [Shield], hand = []\<rparr>" "\<lparr>health = 10, shield = 0, energy_capacity = 1, energy = 1, deck = [Shield], hand = []\<rparr>"
    "[\<lparr>health = 10, shield = 0, kind = WyrmClass\<rparr>, \<lparr>health = 10, shield = 0, kind = RaptorClass\<rparr>]" "[]"]
  by (simp add: wyrm_choose_target_def get_health_def)

text \<open>
  C8. Raptor.choose_target returns the enemy hero when there is no enemy minion, and
  otherwise the enemy minion at the first position that holds the greatest health of the
  list (the first minion seeds the maximum, a later one replaces it only with a strictly
  greater health). Healths 3, 7, 7, 2 select position 1.
\<close>

theorem raptor_targets_highest_health:
  "(ems = [] \<longrightarrow> raptor_choose_target ah eh ms ems = EnemyHero)
 \<and> (ems \<noteq> [] \<longrightarrow>
      (\<exists>i<length ems. raptor_choose_target ah eh ms ems = EnemyMinion i
          \<and> (\<forall>k<length ems. health (ems ! k) \<le> health (ems ! i))
          \<and> (\<forall>k<i. health (ems ! k) < health (ems ! i))))"
proof (cases ems)
  case Nil
  then show ?thesis by (simp add: raptor_choose_target_def)
next
  case (Cons first rest)
  obtain c h where run: "raptor_scan ems 0 (EnemyMinion 0, health first) = (c, h)"
    by (cases "raptor_scan ems 0 (EnemyMinion 0, health first)") simp
  have res: "raptor_choose_target ah eh ms ems = c"
    using run by (simp add: raptor_choose_target_def Cons get_health_def)
  have first: "health first = health (ems ! 0)" "0 < length ems"
    by (simp_all add: Cons)
  from raptor_scan_spec [OF run] have
    "\<exists>i<length ems. c = EnemyMinion i
          \<and> (\<forall>k<length ems. health (ems ! k) \<le> health (ems ! i))
          \<and> (\<forall>k<i. health (ems ! k) < health (ems ! i))"
  proof
    assume "c = EnemyMinion 0 \<and> h = health first \<and> (\<forall>k<length ems. health (ems ! k) \<le> health first)"
    then show ?thesis using first by (intro exI [of _ 0]) simp
  next
    assume "\<exists>j<length ems. c = EnemyMinion (0 + j) \<and> h = health (ems ! j) \<and> health first < h
         \<and> (\<forall>k<length ems. health (ems ! k) \<le> h) \<and> (\<forall>k<j. health (ems ! k) < h)"
    then obtain j where j: "j < length ems" "c = EnemyMinion j" "h = health (ems ! j)"
      "\<forall>k<length ems. health (ems ! k) \<le> h" "\<forall>k<j. health (ems ! k) < h"
      by auto
    then show ?thesis by (intro exI [of _ j]) simp
  qed
  then have "\<exists>i<length ems. raptor_choose_target ah eh ms ems = EnemyMinion i
          \<and> (\<forall>k<length ems. health (ems ! k) \<le> health (ems ! i))
          \<and> (\<forall>k<i. health (ems ! k) < health (ems ! i))"
    by (simp only: res)
  moreover have "ems \<noteq> []" by (simp add: Cons)
  ultimately show ?thesis by blast
qed

theorem raptor_targets_highest_health_witness:
  "raptor_choose_target \<lparr>health = 10, shield = 0, energy_capacity = 1, energy = 1, deck = [Shield], hand = []\<rparr> \<lparr>health = 10, shield = 0, energy_capacity = 1, energy = 1, deck = [Shield], hand = []\<rparr> []
     [\<lparr>health = 3, shield = 0, kind = MinionClass\<rparr>, \<lparr>health = 7, shield = 0, kind = WyrmClass\<rparr>, \<lparr>health = 7, shield = 0, kind = RaptorClass\<rparr>, \<lparr>health = 2, shield = 0, kind = WyrmClass\<rparr>] = EnemyMinion 1
 \<and> raptor_choose_target \<lparr>health = 10, shield = 0, energy_capacity = 1, energy = 1, deck = [Shield], hand = []\<rparr> \<lparr>health = 10, shield = 0, energy_capacity = 1, energy = 1, deck = [Shield], hand = []\<rparr> [\<lparr>health = 10, shield = 0, kind = WyrmClass\<rparr>, \<lparr>health = 10, shield = 0, kind = RaptorClass\<rparr>] [] = EnemyHero"
  using raptor_targets_highest_health [of
    "[\<lparr>health = 3, shield = 0, kind = MinionClass\<rparr>, \<lparr>health = 7, shield = 0, kind = WyrmClass\<rparr>, \<lparr>health = 7, shield = 0, kind = RaptorClass\<rparr>, \<lparr>health = 2, shield = 0, kind = WyrmClass\<rparr>]" "\<lparr>health = 10, shield = 0, energy_capacity = 1, energy = 1, deck = [Shield], hand = []\<rparr>" "\<lparr>health = 10, shield = 0, energy_capacity = 1, energy = 1, deck = [Shield], hand = []\<rparr>" "[]"]
    raptor_targets_highest_health [of "[]" "\<lparr>health = 10, shield = 0, energy_capacity = 1, energy = 1, deck = [Shield], hand = []\<rparr>" "\<lparr>health = 10, shield = 0, energy_capacity = 1, energy = 1, deck = [Shield], hand = []\<rparr>" "[\<lparr>health = 10, shield = 0, kind = WyrmClass\<rparr>, \<lparr>health = 10, shield = 0, kind = RaptorClass\<rparr>]"]
  by (simp add: raptor_choose_target_def get_health_def)

subsection \<open>A hero's new turn\<close>

text \<open>
  For a hand of at most 5 cards new_turn ages the Fireballs of the hand, then moves the
  first \<open>5 - |hand|\<close> cards of the deck (all of them, when the deck is shorter) to the
  end of the hand in deck order, so that a Fireball drawn now is not aged, then raises
  the energy capacity by 1 and fills the energy up to it.
\<close>

lemma new_turn_within_hand_limit:
  assumes "length (hand h) \<le> 5"
  shows "new_turn h =
           h\<lparr>deck := drop (5 - length (hand h)) (deck h),
             hand := map (\<lambda>c. if is_fireball c then increment_turn c else c) (hand h)
                     @ take (5 - length (hand h)) (deck h),
             energy_capacity := energy_capacity h + 1,
             energy := energy_capacity h + 1\<rparr>"
proof -
  have stop: "slice_stop (5 - int (length (hand h))) (length (deck h))
                = min (5 - length (hand h)) (length (deck h))"
    using assms by (simp add: slice_stop_def nat_diff_distrib')
  show ?thesis
  proof (cases "5 - int (length (hand h)) > int (length (deck h))")
    case True
    then have "length (deck h) \<le> 5 - length (hand h)" by linarith
    with True show ?thesis by (simp add: new_turn_def draw_cards_def Let_def)
  next
    case False
    then show ?thesis
      by (simp add: new_turn_def draw_cards_def Let_def stop min_def)
  qed
qed

lemma new_turn_within_hand_limit_witness:
  "new_turn \<lparr>health = 10, shield = 0, energy_capacity = 1, energy = 0,
             deck = [Fireball 0, Heal, Card], hand = [Fireball 2, Shield, Heal]\<rparr>
   = \<lparr>health = 10, shield = 0, energy_capacity = 2, energy = 2,
      deck = [Card], hand = [Fireball 3, Shield, Heal, Fireball 0, Heal]\<rparr>"
  using new_turn_within_hand_limit
    [of "\<lparr>health = 10, shield = 0, energy_capacity = 1, energy = 0,
          deck = [Fireball 0, Heal, Card], hand = [Fireball 2, Shield, Heal]\<rparr>"]
  by simp

text \<open>
  C3 says that a hand of 5 or more cards draws nothing. A hand of 6 cards asks
  draw_cards for \<open>-1\<close> cards, and the slice \<open>cards[0:-1]\<close> is the deck without its last
  card: the hero draws one card of a deck of two.
\<close>

theorem new_turn_draws_into_hand_of_six:
  "hand (new_turn \<lparr>health = 10, shield = 0, energy_capacity = 1, energy = 1,
                   deck = [Heal, Card],
                   hand = [Shield, Shield, Shield, Shield, Shield, Shield]\<rparr>)
     = [Shield, Shield, Shield, Shield, Shield, Shield, Heal]
 \<and> deck (new_turn \<lparr>health = 10, shield = 0, energy_capacity = 1, energy = 1,
                   deck = [Heal, Card],
                   hand = [Shield, Shield, Shield, Shield, Shield, Shield]\<rparr>)
     = [Card]"
  by (simp add: new_turn_def draw_cards_def slice_stop_def Let_def)

subsection \<open>Playing a card\<close>

lemma place_minion_length: "length ms \<le> 5 \<Longrightarrow> length (place_minion mn ms) \<le> 5"
  by (cases "length ms = 5") (simp_all add: place_minion_def)

lemma place_minion_not_over: "length ms \<le> 5 \<Longrightarrow> \<not> 5 < length (place_minion mn ms)"
  using place_minion_length [of ms mn] by simp

lemma scan_hand_first:
  "first_affordable (energy (enemy m)) cards = None \<Longrightarrow>
     scan_hand cards skipped m played = (skipped + length cards, m, played)"
  "first_affordable (energy (enemy m)) cards = Some j \<Longrightarrow>
     scan_hand cards skipped m played =
       (skipped + j,
        enemy_plays (cards ! j) (skipped + j)
          (m\<lparr>enemy := (enemy m)\<lparr>energy := energy (enemy m) - get_cost (cards ! j)\<rparr>\<rparr>),
        played @ [type_name (cards ! j)])"
proof (induction cards arbitrary: skipped j)
  case Nil
  { case 1 then show ?case by simp }
  { case 2 then show ?case by simp }
next
  case (Cons c cards)
  { case 1
    then have no: "\<not> get_cost c \<le> energy (enemy m)"
      and rest: "first_affordable (energy (enemy m)) cards = None"
      by (auto split: if_splits)
    show ?case using no Cons.IH(1) [OF rest, of "skipped + 1"]
      by (simp add: spend_energy_def) }
  { case 2
    show ?case
    proof (cases "get_cost c \<le> energy (enemy m)")
      case True
      with 2 have "j = 0" by simp
      with True show ?thesis by (simp add: spend_energy_def)
    next
      case False
      with 2 obtain j' where j': "first_affordable (energy (enemy m)) cards = Some j'" "j = Suc j'"
        by auto
      show ?thesis using False Cons.IH(2) [OF j'(1), of "skipped + 1"] j'(2)
        by (simp add: spend_energy_def)
    qed }
qed

lemma first_affordable_None:
  "first_affordable e cards = None \<longleftrightarrow> (\<forall>c\<in>set cards. e < get_cost c)"
  by (induction cards) auto

lemma enemy_plays_minions:
  "active_enemy_minions (enemy_plays (MinionCard mn) i m) = place_minion mn (active_enemy_minions m)"
  "active_player_minions (enemy_plays (MinionCard mn) i m) = active_player_minions m"
  by (simp_all add: enemy_plays_def)

lemma enemy_plays_limit:
  assumes "length (active_player_minions m) \<le> 5" and "length (active_enemy_minions m) \<le> 5"
  shows "length (active_player_minions (enemy_plays c i m)) \<le> 5
       \<and> length (active_enemy_minions (enemy_plays c i m)) \<le> 5"
proof (cases c)
  case (MinionCard mn)
  then show ?thesis using assms by (simp add: enemy_plays_minions place_minion_length)
next
  case Card
  then show ?thesis
    using assms use_card_minions [of c EnemyRef m] by (simp add: enemy_plays_def Let_def)
next
  case Shield
  then show ?thesis
    using assms use_card_minions [of c EnemyRef m] by (simp add: enemy_plays_def Let_def)
next
  case Heal
  then show ?thesis
    using assms use_card_minions [of c EnemyRef m] by (simp add: enemy_plays_def Let_def)
next
  case (Fireball n)
  then show ?thesis
    using assms use_card_minions [of c PlayerRef m] by (simp add: enemy_plays_def Let_def)
qed

lemma scan_hand_limit:
  assumes "length (active_player_minions m) \<le> 5" and "length (active_enemy_minions m) \<le> 5"
  shows "length (active_player_minions (fst (snd (scan_hand cards skipped m played)))) \<le> 5
       \<and> length (active_enemy_minions (fst (snd (scan_hand cards skipped m played)))) \<le> 5"
proof (cases "first_affordable (energy (enemy m)) cards")
  case None
  then show ?thesis using assms by (simp add: scan_hand_first)
next
  case (Some j)
  then show ?thesis
    using enemy_plays_limit [of "m\<lparr>enemy := (enemy m)\<lparr>energy := energy (enemy m) - get_cost (cards ! j)\<rparr>\<rparr>"
        "cards ! j" "skipped + j"] assms
    by (simp add: scan_hand_first)
qed

lemma enemy_card_loop_limit:
  "length (active_player_minions m) \<le> 5 \<Longrightarrow> length (active_enemy_minions m) \<le> 5 \<Longrightarrow>
   length (active_player_minions (fst (enemy_card_loop m played))) \<le> 5
 \<and> length (active_enemy_minions (fst (enemy_card_loop m played))) \<le> 5"
proof (induction m played rule: enemy_card_loop.induct)
  case (1 m played)
  obtain skipped m' played' where run: "scan_hand (hand (enemy m)) 0 m played = (skipped, m', played')"
    by (cases "scan_hand (hand (enemy m)) 0 m played") auto
  have lim: "length (active_player_minions m') \<le> 5 \<and> length (active_enemy_minions m') \<le> 5"
    using scan_hand_limit [OF "1.prems", of "hand (enemy m)" 0 played] run by simp
  show ?case
  proof (cases "skipped \<ge> length (hand (enemy m'))")
    case True
    have "enemy_card_loop m played = (m', played')"
      using True by (subst enemy_card_loop.simps) (simp add: run)
    then show ?thesis using lim by simp
  next
    case False
    have "enemy_card_loop m played = enemy_card_loop m' played'"
      using False by (subst enemy_card_loop.simps) (simp add: run)
    moreover have "length (active_player_minions (fst (enemy_card_loop m' played'))) \<le> 5
        \<and> length (active_enemy_minions (fst (enemy_card_loop m' played'))) \<le> 5"
      using "1.IH" [OF run [symmetric] refl False] lim by simp
    ultimately show ?thesis by simp
  qed
qed

lemma foldl_player_slots:
  "length (player_slots (foldl player_minion_acts a ks)) \<le> length (player_slots a)
 \<and> length (enemy_slots (foldl player_minion_acts a ks)) \<le> length (enemy_slots a)"
proof (induction ks arbitrary: a)
  case Nil
  then show ?case by simp
next
  case (Cons k ks)
  have step: "length (player_slots (player_minion_acts a k)) \<le> length (player_slots a)
            \<and> length (enemy_slots (player_minion_acts a k)) \<le> length (enemy_slots a)"
    by (simp add: player_minion_acts_def Let_def use_effect_slots)
  from Cons.IH [of "player_minion_acts a k"] step show ?case by simp
qed

lemma foldl_enemy_slots:
  "length (player_slots (foldl enemy_minion_acts a ks)) \<le> length (player_slots a)
 \<and> length (enemy_slots (foldl enemy_minion_acts a ks)) \<le> length (enemy_slots a)"
proof (induction ks arbitrary: a)
  case Nil
  then show ?case by simp
next
  case (Cons k ks)
  have step: "length (player_slots (enemy_minion_acts a k)) \<le> length (player_slots a)
            \<and> length (enemy_slots (enemy_minion_acts a k)) \<le> length (enemy_slots a)"
    by (simp add: enemy_minion_acts_def Let_def use_effect_slots)
  from Cons.IH [of "enemy_minion_acts a k"] step show ?case by simp
qed

lemma minions_act_limit:
  "length (active_player_minions (player_minions_act m)) \<le> length (active_player_minions m)"
  "length (active_enemy_minions (player_minions_act m)) \<le> length (active_enemy_minions m)"
  "length (active_player_minions (enemy_minions_act m)) \<le> length (active_player_minions m)"
  "length (active_enemy_minions (enemy_minions_act m)) \<le> length (active_enemy_minions m)"
  using foldl_player_slots [of "enter m" "player_slots (enter m)"]
        foldl_enemy_slots [of "enter m" "enemy_slots (enter m)"]
  by (simp_all add: player_minions_act_def enemy_minions_act_def leave_def) (simp_all add: enter_def)

lemma end_turn_limit:
  assumes "length (active_player_minions m) \<le> 5" and "length (active_enemy_minions m) \<le> 5"
  shows "length (active_player_minions (snd (end_turn m))) \<le> 5
       \<and> length (active_enemy_minions (snd (end_turn m))) \<le> 5"
proof -
  let ?m2 = "enemy_turn_begins m"
  have m2: "length (active_player_minions ?m2) \<le> 5" "length (active_enemy_minions ?m2) \<le> 5"
    using assms minions_act_limit(1,2) [of m] by (simp_all add: enemy_turn_begins_def)
  let ?m3 = "fst (enemy_card_loop ?m2 [])"
  have m3: "length (active_player_minions ?m3) \<le> 5" "length (active_enemy_minions ?m3) \<le> 5"
    using enemy_card_loop_limit [OF m2, of "[]"] by simp_all
  have m4: "length (active_player_minions (enemy_minions_act ?m3)) \<le> 5"
    "length (active_enemy_minions (enemy_minions_act ?m3)) \<le> 5"
    using m3 minions_act_limit(3,4) [of ?m3] by simp_all
  show ?thesis using m2 m4 by (simp add: end_turn_def Let_def)
qed

lemma play_card_minion:
  assumes "i < length (hand (player m))" and "hand (player m) ! i = MinionCard mn"
    and "get_cost (MinionCard mn) \<le> energy (player m)"
    and "length (active_player_minions m) \<le> 5"
  shows "\<exists>m'. play_card m i t = Inr (True, m')
           \<and> active_player_minions m' = place_minion mn (active_player_minions m)
           \<and> active_enemy_minions m' = active_enemy_minions m"
  using assms by (simp add: play_card_def spend_energy_def Let_def place_minion_not_over)

lemma play_card_limit:
  assumes "length (active_player_minions m) \<le> 5" and "length (active_enemy_minions m) \<le> 5"
    and "play_card m i t = Inr (b, m')"
  shows "length (active_player_minions m') \<le> 5 \<and> length (active_enemy_minions m') \<le> 5"
proof (cases "i < length (hand (player m)) \<and> get_cost (hand (player m) ! i) \<le> energy (player m)")
  case False
  with assms show ?thesis
    by (auto simp: play_card_def spend_energy_def Let_def split: if_splits)
next
  case True
  let ?m1 = "m\<lparr>player := (player m)\<lparr>energy := energy (player m) - get_cost (hand (player m) ! i),
                                     hand := remove_at i (hand (player m))\<rparr>\<rparr>"
  show ?thesis
  proof (cases "hand (player m) ! i")
    case (MinionCard mn)
    with True assms show ?thesis
      by (auto simp: play_card_def spend_energy_def Let_def place_minion_length split: if_splits)
  next
    case Card
    with True assms use_card_minions [of Card "locate ?m1 t" ?m1] show ?thesis
      by (auto simp: play_card_def spend_energy_def Let_def)
  next
    case Shield
    with True assms use_card_minions [of Shield "locate ?m1 t" ?m1] show ?thesis
      by (auto simp: play_card_def spend_energy_def Let_def)
  next
    case Heal
    with True assms use_card_minions [of Heal "locate ?m1 t" ?m1] show ?thesis
      by (auto simp: play_card_def spend_energy_def Let_def)
  next
    case (Fireball n)
    with True assms use_card_minions [of "Fireball n" "locate ?m1 t" ?m1] show ?thesis
      by (auto simp: play_card_def spend_energy_def Let_def)
  qed
qed

lemma discard_card_minions:
  "discard_card m i = Inr m' \<Longrightarrow>
     active_player_minions m' = active_player_minions m
   \<and> active_enemy_minions m' = active_enemy_minions m"
  by (auto simp: discard_card_def split: if_splits)

lemma play_card_insufficient:
  assumes "i < length (hand (player m))"
  shows "play_card m i t = Inr (False, m') \<longleftrightarrow>
           (energy (player m) < get_cost (hand (player m) ! i) \<and> m' = m)"
  using assms
  by (auto simp: play_card_def spend_energy_def Let_def split: card.splits if_splits)

text \<open>
  C9. For a card of the player's hand play_card returns False exactly when the cost of the
  card exceeds the player's energy, and then the state it leaves is the state it found:
  energy, hand, deck, the health and shield of both heroes and both rosters. The failure
  is a returned value, not an exception; with at most 5 player minions no call for a card
  of the hand raises at all.
\<close>

theorem play_card_fails_iff_too_expensive:
  assumes "i < length (hand (player m))"
  shows "((\<exists>m'. play_card m i t = Inr (False, m')) \<longleftrightarrow>
            energy (player m) < get_cost (hand (player m) ! i))
       \<and> (energy (player m) < get_cost (hand (player m) ! i) \<longrightarrow>
            play_card m i t = Inr (False, m))
       \<and> (length (active_player_minions m) \<le> 5 \<longrightarrow>
            (\<forall>e. play_card m i t \<noteq> Inl e))"
proof -
  have a: "(\<exists>m'. play_card m i t = Inr (False, m')) \<longleftrightarrow>
            energy (player m) < get_cost (hand (player m) ! i)"
    using play_card_insufficient [OF assms] by auto
  have b: "energy (player m) < get_cost (hand (player m) ! i) \<longrightarrow>
            play_card m i t = Inr (False, m)"
    using play_card_insufficient [OF assms] by auto
  have c: "length (active_player_minions m) \<le> 5 \<longrightarrow> (\<forall>e. play_card m i t \<noteq> Inl e)"
    using assms
    by (auto simp: play_card_def spend_energy_def Let_def place_minion_not_over
             split: card.splits if_splits)
  from a b c show ?thesis by blast
qed


theorem play_card_fails_iff_too_expensive_witness:
  "play_card (HearthModel (Hero 10 0 2 [Shield] [Fireball 0, Shield]) [] (Hero 10 0 3 [Shield] []) [])
             0 OnEnemy
     = Inr (False, HearthModel (Hero 10 0 2 [Shield] [Fireball 0, Shield]) [] (Hero 10 0 3 [Shield] []) [])
 \<and> (\<nexists>m'. play_card (HearthModel (Hero 10 0 2 [Shield] [Fireball 0, Shield]) []
                                    (Hero 10 0 3 [Shield] []) [])
                       1 OnEnemy = Inr (False, m'))"
  using play_card_fails_iff_too_expensive
      [of 0 "HearthModel (Hero 10 0 2 [Shield] [Fireball 0, Shield]) [] (Hero 10 0 3 [Shield] []) []" OnEnemy]
    play_card_fails_iff_too_expensive
      [of 1 "HearthModel (Hero 10 0 2 [Shield] [Fireball 0, Shield]) [] (Hero 10 0 3 [Shield] []) []" OnEnemy]
  by (simp add: Hero_def HearthModel_def)

subsection \<open>Minion slots\<close>

lemma enemy_plays_minion:
  "enemy_plays (MinionCard mn) j m =
     m\<lparr>active_enemy_minions := place_minion mn (active_enemy_minions m),
       enemy := (enemy m)\<lparr>hand := remove_at j (hand (enemy m))\<rparr>\<rparr>"
  by (simp add: enemy_plays_def Let_def)

lemma enemy_card_loop_nothing_affordable:
  assumes "\<forall>c\<in>set (hand (enemy m)). energy (enemy m) < get_cost c"
  shows "enemy_card_loop m played = (m, played)"
proof -
  from assms have "first_affordable (energy (enemy m)) (hand (enemy m)) = None"
    by (simp add: first_affordable_None)
  then have "scan_hand (hand (enemy m)) 0 m played = (length (hand (enemy m)), m, played)"
    by (simp add: scan_hand_first)
  then show ?thesis by (subst enemy_card_loop.simps) simp
qed

lemma enemy_card_loop_places_minion:
  assumes "first_affordable (energy (enemy m)) (hand (enemy m)) = Some j"
    and "hand (enemy m) ! j = MinionCard mn"
  shows "enemy_card_loop m played =
           (if length (hand (enemy m)) \<le> Suc j
            then (m\<lparr>active_enemy_minions := place_minion mn (active_enemy_minions m),
                     enemy := (enemy m)\<lparr>energy := energy (enemy m) - 2,
                                         hand := remove_at j (hand (enemy m))\<rparr>\<rparr>,
                  played @ [type_name (MinionCard mn)])
            else enemy_card_loop
                   (m\<lparr>active_enemy_minions := place_minion mn (active_enemy_minions m),
                      enemy := (enemy m)\<lparr>energy := energy (enemy m) - 2,
                                          hand := remove_at j (hand (enemy m))\<rparr>\<rparr>)
                   (played @ [type_name (MinionCard mn)]))"
proof -
  from first_affordable_Some [OF assms(1)] have j: "j < length (hand (enemy m))" by simp
  have run: "scan_hand (hand (enemy m)) 0 m played =
               (j, m\<lparr>active_enemy_minions := place_minion mn (active_enemy_minions m),
                     enemy := (enemy m)\<lparr>energy := energy (enemy m) - 2,
                                         hand := remove_at j (hand (enemy m))\<rparr>\<rparr>,
                played @ [type_name (MinionCard mn)])"
    using scan_hand_first(2) [OF assms(1), of 0 played] assms(2)
    by (simp add: enemy_plays_minion)
  have len: "length (remove_at j (hand (enemy m))) \<le> j \<longleftrightarrow> length (hand (enemy m)) \<le> Suc j"
    using j length_remove_at [of j "hand (enemy m)"] by auto
  show ?thesis
    by (subst enemy_card_loop.simps) (simp add: run len)
qed

lemma enemy_turn_begins_limit:
  assumes "length (active_player_minions m) \<le> 5" and "length (active_enemy_minions m) \<le> 5"
  shows "length (active_player_minions (enemy_turn_begins m)) \<le> 5"
    and "length (active_enemy_minions (enemy_turn_begins m)) \<le> 5"
  using assms minions_act_limit(1,2) [of m] by (simp_all add: enemy_turn_begins_def)

lemma end_turn_alive:
  assumes "hero_is_alive (enemy (enemy_turn_begins m))"
  shows "end_turn m =
           (snd (enemy_card_loop (enemy_turn_begins m) []),
            (enemy_minions_act (fst (enemy_card_loop (enemy_turn_begins m) [])))
              \<lparr>player := new_turn (player (enemy_minions_act
                                             (fst (enemy_card_loop (enemy_turn_begins m) []))))\<rparr>)"
  using assms by (simp add: end_turn_def Let_def)

lemma end_turn_places_one_minion:
  assumes alive: "hero_is_alive (enemy (enemy_turn_begins m))"
    and first: "first_affordable (energy (enemy (enemy_turn_begins m)))
                  (hand (enemy (enemy_turn_begins m))) = Some k"
    and card: "hand (enemy (enemy_turn_begins m)) ! k = MinionCard mn"
    and rest: "\<forall>c\<in>set (remove_at k (hand (enemy (enemy_turn_begins m)))).
                 energy (enemy (enemy_turn_begins m)) - 2 < get_cost c"
  shows "enemy_card_loop (enemy_turn_begins m) [] =
           ((enemy_turn_begins m)
              \<lparr>active_enemy_minions :=
                 place_minion mn (active_enemy_minions (enemy_turn_begins m)),
               enemy := (enemy (enemy_turn_begins m))
                 \<lparr>energy := energy (enemy (enemy_turn_begins m)) - 2,
                  hand := remove_at k (hand (enemy (enemy_turn_begins m)))\<rparr>\<rparr>,
            [type_name (MinionCard mn)])"
proof -
  let ?m2 = "enemy_turn_begins m"
  let ?m3 = "?m2\<lparr>active_enemy_minions := place_minion mn (active_enemy_minions ?m2),
                 enemy := (enemy ?m2)\<lparr>energy := energy (enemy ?m2) - 2,
                                       hand := remove_at k (hand (enemy ?m2))\<rparr>\<rparr>"
  have "enemy_card_loop ?m3 [type_name (MinionCard mn)] = (?m3, [type_name (MinionCard mn)])"
    using rest by (intro enemy_card_loop_nothing_affordable) simp
  then show ?thesis
    using enemy_card_loop_places_minion [OF first card, of "[]"] by simp
qed

text \<open>
  C6. In a state whose rosters hold at most 5 minions each: a permanent card of the
  player's hand that the player can afford is played by play_card into the player's
  roster, and the first card the enemy can afford, when permanent, is played by the
  enemy's loop into the enemy's roster; a roster of 5 loses the minion at position 0 and
  takes the new minion at the end, a shorter roster takes the new minion at the end. On
  the enemy's side this is said of one pass of the loop, of the loop itself (it goes on,
  or stops, from the state with the new roster) and of end_turn: with the enemy alive
  end_turn returns what the loop leaves, after the enemy's minions and the player's
  new_turn; when the permanent card is the only card the enemy can afford, that is the
  state with the new roster. After play_card, discard_card and end_turn both rosters hold
  at most 5 minions.
\<close>

theorem minion_slots_limit:
  assumes "length (active_player_minions m) \<le> 5" and "length (active_enemy_minions m) \<le> 5"
  shows "(i < length (hand (player m)) \<and> hand (player m) ! i = MinionCard mn
            \<and> get_cost (MinionCard mn) \<le> energy (player m) \<longrightarrow>
          (\<exists>m'. play_card m i t = Inr (True, m')
             \<and> active_player_minions m' =
                 (if length (active_player_minions m) = 5 then tl (active_player_minions m)
                  else active_player_minions m) @ [mn]
             \<and> active_enemy_minions m' = active_enemy_minions m))
       \<and> (first_affordable (energy (enemy m)) (hand (enemy m)) = Some j
            \<and> hand (enemy m) ! j = MinionCard mn' \<longrightarrow>
          active_enemy_minions (fst (snd (scan_hand (hand (enemy m)) 0 m played))) =
            (if length (active_enemy_minions m) = 5 then tl (active_enemy_minions m)
             else active_enemy_minions m) @ [mn']
          \<and> active_player_minions (fst (snd (scan_hand (hand (enemy m)) 0 m played))) =
              active_player_minions m
          \<and> enemy_card_loop m played =
              (if length (hand (enemy m)) \<le> Suc j
               then (m\<lparr>active_enemy_minions :=
                          (if length (active_enemy_minions m) = 5 then tl (active_enemy_minions m)
                           else active_enemy_minions m) @ [mn'],
                        enemy := (enemy m)\<lparr>energy := energy (enemy m) - 2,
                                            hand := remove_at j (hand (enemy m))\<rparr>\<rparr>,
                     played @ [type_name (MinionCard mn')])
               else enemy_card_loop
                      (m\<lparr>active_enemy_minions :=
                           (if length (active_enemy_minions m) = 5 then tl (active_enemy_minions m)
                            else active_enemy_minions m) @ [mn'],
                         enemy := (enemy m)\<lparr>energy := energy (enemy m) - 2,
                                             hand := remove_at j (hand (enemy m))\<rparr>\<rparr>)
                      (played @ [type_name (MinionCard mn')])))
       \<and> (play_card m i' t' = Inr (b, m1) \<longrightarrow>
            length (active_player_minions m1) \<le> 5 \<and> length (active_enemy_minions m1) \<le> 5)
       \<and> (discard_card m i'' = Inr m2 \<longrightarrow>
            length (active_player_minions m2) \<le> 5 \<and> length (active_enemy_minions m2) \<le> 5)
       \<and> length (active_player_minions (snd (end_turn m))) \<le> 5
       \<and> length (active_enemy_minions (snd (end_turn m))) \<le> 5
       \<and> (hero_is_alive (enemy (enemy_turn_begins m)) \<longrightarrow>
            end_turn m =
              (snd (enemy_card_loop (enemy_turn_begins m) []),
               (enemy_minions_act (fst (enemy_card_loop (enemy_turn_begins m) [])))
                 \<lparr>player := new_turn (player (enemy_minions_act
                                (fst (enemy_card_loop (enemy_turn_begins m) []))))\<rparr>))
       \<and> (hero_is_alive (enemy (enemy_turn_begins m))
            \<and> first_affordable (energy (enemy (enemy_turn_begins m)))
                  (hand (enemy (enemy_turn_begins m))) = Some k
            \<and> hand (enemy (enemy_turn_begins m)) ! k = MinionCard mn''
            \<and> (\<forall>c\<in>set (remove_at k (hand (enemy (enemy_turn_begins m)))).
                  energy (enemy (enemy_turn_begins m)) - 2 < get_cost c) \<longrightarrow>
            length (active_enemy_minions (enemy_turn_begins m)) \<le> 5
            \<and> (let placed = (enemy_turn_begins m)
                   \<lparr>active_enemy_minions :=
                      (if length (active_enemy_minions (enemy_turn_begins m)) = 5
                       then tl (active_enemy_minions (enemy_turn_begins m))
                       else active_enemy_minions (enemy_turn_begins m)) @ [mn''],
                    enemy := (enemy (enemy_turn_begins m))
                      \<lparr>energy := energy (enemy (enemy_turn_begins m)) - 2,
                       hand := remove_at k (hand (enemy (enemy_turn_begins m)))\<rparr>\<rparr>
                in end_turn m =
                     ([type_name (MinionCard mn'')],
                      (enemy_minions_act placed)
                        \<lparr>player := new_turn (player (enemy_minions_act placed))\<rparr>)))"
proof -
  have a: "i < length (hand (player m)) \<and> hand (player m) ! i = MinionCard mn
            \<and> get_cost (MinionCard mn) \<le> energy (player m) \<longrightarrow>
          (\<exists>m'. play_card m i t = Inr (True, m')
             \<and> active_player_minions m' =
                 (if length (active_player_minions m) = 5 then tl (active_player_minions m)
                  else active_player_minions m) @ [mn]
             \<and> active_enemy_minions m' = active_enemy_minions m)"
    using play_card_minion [of i m mn t] assms(1) by (simp add: place_minion_def)
  have b: "first_affordable (energy (enemy m)) (hand (enemy m)) = Some j
            \<and> hand (enemy m) ! j = MinionCard mn' \<longrightarrow>
          active_enemy_minions (fst (snd (scan_hand (hand (enemy m)) 0 m played))) =
            (if length (active_enemy_minions m) = 5 then tl (active_enemy_minions m)
             else active_enemy_minions m) @ [mn']
          \<and> active_player_minions (fst (snd (scan_hand (hand (enemy m)) 0 m played))) =
              active_player_minions m"
    by (simp add: scan_hand_first enemy_plays_minions place_minion_def)
  have b2: "first_affordable (energy (enemy m)) (hand (enemy m)) = Some j
            \<and> hand (enemy m) ! j = MinionCard mn' \<longrightarrow>
          enemy_card_loop m played =
              (if length (hand (enemy m)) \<le> Suc j
               then (m\<lparr>active_enemy_minions :=
                          (if length (active_enemy_minions m) = 5 then tl (active_enemy_minions m)
                           else active_enemy_minions m) @ [mn'],
                        enemy := (enemy m)\<lparr>energy := energy (enemy m) - 2,
                                            hand := remove_at j (hand (enemy m))\<rparr>\<rparr>,
                     played @ [type_name (MinionCard mn')])
               else enemy_card_loop
                      (m\<lparr>active_enemy_minions :=
                           (if length (active_enemy_minions m) = 5 then tl (active_enemy_minions m)
                            else active_enemy_minions m) @ [mn'],
                         enemy := (enemy m)\<lparr>energy := energy (enemy m) - 2,
                                             hand := remove_at j (hand (enemy m))\<rparr>\<rparr>)
                      (played @ [type_name (MinionCard mn')]))"
  proof
    assume h: "first_affordable (energy (enemy m)) (hand (enemy m)) = Some j
                 \<and> hand (enemy m) ! j = MinionCard mn'"
    from enemy_card_loop_places_minion [OF conjunct1 [OF h] conjunct2 [OF h], of played]
    show "enemy_card_loop m played =
              (if length (hand (enemy m)) \<le> Suc j
               then (m\<lparr>active_enemy_minions :=
                          (if length (active_enemy_minions m) = 5 then tl (active_enemy_minions m)
                           else active_enemy_minions m) @ [mn'],
                        enemy := (enemy m)\<lparr>energy := energy (enemy m) - 2,
                                            hand := remove_at j (hand (enemy m))\<rparr>\<rparr>,
                     played @ [type_name (MinionCard mn')])
               else enemy_card_loop
                      (m\<lparr>active_enemy_minions :=
                           (if length (active_enemy_minions m) = 5 then tl (active_enemy_minions m)
                            else active_enemy_minions m) @ [mn'],
                         enemy := (enemy m)\<lparr>energy := energy (enemy m) - 2,
                                             hand := remove_at j (hand (enemy m))\<rparr>\<rparr>)
                      (played @ [type_name (MinionCard mn')]))"
      by (simp only: place_minion_def)
  qed
  have c: "play_card m i' t' = Inr (b, m1) \<longrightarrow>
            length (active_player_minions m1) \<le> 5 \<and> length (active_enemy_minions m1) \<le> 5"
    using play_card_limit [OF assms] by blast
  have d: "discard_card m i'' = Inr m2 \<longrightarrow>
            length (active_player_minions m2) \<le> 5 \<and> length (active_enemy_minions m2) \<le> 5"
    using discard_card_minions [of m i'' m2] assms by auto
  have f: "hero_is_alive (enemy (enemy_turn_begins m)) \<longrightarrow>
            end_turn m =
              (snd (enemy_card_loop (enemy_turn_begins m) []),
               (enemy_minions_act (fst (enemy_card_loop (enemy_turn_begins m) [])))
                 \<lparr>player := new_turn (player (enemy_minions_act
                                (fst (enemy_card_loop (enemy_turn_begins m) []))))\<rparr>)"
    using end_turn_alive [of m] by blast
  have g: "hero_is_alive (enemy (enemy_turn_begins m))
            \<and> first_affordable (energy (enemy (enemy_turn_begins m)))
                  (hand (enemy (enemy_turn_begins m))) = Some k
            \<and> hand (enemy (enemy_turn_begins m)) ! k = MinionCard mn''
            \<and> (\<forall>c\<in>set (remove_at k (hand (enemy (enemy_turn_begins m)))).
                  energy (enemy (enemy_turn_begins m)) - 2 < get_cost c) \<longrightarrow>
            length (active_enemy_minions (enemy_turn_begins m)) \<le> 5
            \<and> (let placed = (enemy_turn_begins m)
                   \<lparr>active_enemy_minions :=
                      (if length (active_enemy_minions (enemy_turn_begins m)) = 5
                       then tl (active_enemy_minions (enemy_turn_begins m))
                       else active_enemy_minions (enemy_turn_begins m)) @ [mn''],
                    enemy := (enemy (enemy_turn_begins m))
                      \<lparr>energy := energy (enemy (enemy_turn_begins m)) - 2,
                       hand := remove_at k (hand (enemy (enemy_turn_begins m)))\<rparr>\<rparr>
                in end_turn m =
                     ([type_name (MinionCard mn'')],
                      (enemy_minions_act placed)
                        \<lparr>player := new_turn (player (enemy_minions_act placed))\<rparr>))"
  proof
    assume h: "hero_is_alive (enemy (enemy_turn_begins m))
            \<and> first_affordable (energy (enemy (enemy_turn_begins m)))
                  (hand (enemy (enemy_turn_begins m))) = Some k
            \<and> hand (enemy (enemy_turn_begins m)) ! k = MinionCard mn''
            \<and> (\<forall>c\<in>set (remove_at k (hand (enemy (enemy_turn_begins m)))).
                  energy (enemy (enemy_turn_begins m)) - 2 < get_cost c)"
    then have alive: "hero_is_alive (enemy (enemy_turn_begins m))"
      and first: "first_affordable (energy (enemy (enemy_turn_begins m)))
                  (hand (enemy (enemy_turn_begins m))) = Some k"
      and card: "hand (enemy (enemy_turn_begins m)) ! k = MinionCard mn''"
      and rest: "\<forall>c\<in>set (remove_at k (hand (enemy (enemy_turn_begins m)))).
                  energy (enemy (enemy_turn_begins m)) - 2 < get_cost c"
      by simp_all
    note loop = end_turn_places_one_minion [OF alive first card rest]
    show "length (active_enemy_minions (enemy_turn_begins m)) \<le> 5
            \<and> (let placed = (enemy_turn_begins m)
                   \<lparr>active_enemy_minions :=
                      (if length (active_enemy_minions (enemy_turn_begins m)) = 5
                       then tl (active_enemy_minions (enemy_turn_begins m))
                       else active_enemy_minions (enemy_turn_begins m)) @ [mn''],
                    enemy := (enemy (enemy_turn_begins m))
                      \<lparr>energy := energy (enemy (enemy_turn_begins m)) - 2,
                       hand := remove_at k (hand (enemy (enemy_turn_begins m)))\<rparr>\<rparr>
                in end_turn m =
                     ([type_name (MinionCard mn'')],
                      (enemy_minions_act placed)
                        \<lparr>player := new_turn (player (enemy_minions_act placed))\<rparr>))"
      using enemy_turn_begins_limit(2) [OF assms] end_turn_alive [OF alive]
      by (simp add: loop Let_def place_minion_def)
  qed
  from a b b2 c d end_turn_limit [OF assms] f g show ?thesis by blast
qed

theorem minion_slots_limit_witness:
  "(\<exists>m'. play_card (HearthModel (Hero 10 0 2 [Shield, Heal] [MinionCard (Raptor 1 0)])
                                [Minion 1 0, Minion 2 0, Minion 3 0, Minion 4 0, Minion 5 0]
                                (Hero 10 0 1 [Heal] [MinionCard (Minion 7 0), Fireball 0, Fireball 0,
                                                     Fireball 0, Fireball 0])
                                [Minion 1 0, Minion 2 0, Minion 3 0, Minion 4 0, Minion 5 0])
                   0 OnPlayer = Inr (True, m')
      \<and> active_player_minions m' = [Minion 2 0, Minion 3 0, Minion 4 0, Minion 5 0, Raptor 1 0])
 \<and> fst (end_turn (HearthModel (Hero 10 0 2 [Shield, Heal] [MinionCard (Raptor 1 0)])
                                [Minion 1 0, Minion 2 0, Minion 3 0, Minion 4 0, Minion 5 0]
                                (Hero 10 0 1 [Heal] [MinionCard (Minion 7 0), Fireball 0, Fireball 0,
                                                     Fireball 0, Fireball 0])
                                [Minion 1 0, Minion 2 0, Minion 3 0, Minion 4 0, Minion 5 0]))
     = [''Minion'']
 \<and> active_enemy_minions
      (snd (end_turn (HearthModel (Hero 10 0 2 [Shield, Heal] [MinionCard (Raptor 1 0)])
                                [Minion 1 0, Minion 2 0, Minion 3 0, Minion 4 0, Minion 5 0]
                                (Hero 10 0 1 [Heal] [MinionCard (Minion 7 0), Fireball 0, Fireball 0,
                                                     Fireball 0, Fireball 0])
                                [Minion 1 0, Minion 2 0, Minion 3 0, Minion 4 0, Minion 5 0])))
     = [Minion 2 0, Minion 3 0, Minion 4 0, Minion 5 0, Minion 7 0]"
proof -
  let ?m = "HearthModel (Hero 10 0 2 [Shield, Heal] [MinionCard (Raptor 1 0)])
                        [Minion 1 0, Minion 2 0, Minion 3 0, Minion 4 0, Minion 5 0]
                        (Hero 10 0 1 [Heal] [MinionCard (Minion 7 0), Fireball 0, Fireball 0,
                                             Fireball 0, Fireball 0])
                        [Minion 1 0, Minion 2 0, Minion 3 0, Minion 4 0, Minion 5 0]"
  let ?placed = "(enemy_turn_begins ?m)
                   \<lparr>active_enemy_minions :=
                      (if length (active_enemy_minions (enemy_turn_begins ?m)) = 5
                       then tl (active_enemy_minions (enemy_turn_begins ?m))
                       else active_enemy_minions (enemy_turn_begins ?m)) @ [Minion 7 0],
                    enemy := (enemy (enemy_turn_begins ?m))
                      \<lparr>energy := energy (enemy (enemy_turn_begins ?m)) - 2,
                       hand := remove_at 0 (hand (enemy (enemy_turn_begins ?m)))\<rparr>\<rparr>"
  have five: "length (active_player_minions ?m) \<le> 5" "length (active_enemy_minions ?m) \<le> 5"
    by (simp_all add: HearthModel_def)
  note rule = minion_slots_limit [OF five, of 0 "Raptor 1 0" OnPlayer 0 "Minion 7 0" "[]"
                                       0 OnPlayer True ?m 0 ?m 0 "Minion 7 0"]
  have card: "0 < length (hand (player ?m)) \<and> hand (player ?m) ! 0 = MinionCard (Raptor 1 0)
                \<and> get_cost (MinionCard (Raptor 1 0)) \<le> energy (player ?m)"
    by (simp add: HearthModel_def Hero_def)
  have alive: "hero_is_alive (enemy (enemy_turn_begins ?m))"
    by code_simp
  have first: "first_affordable (energy (enemy (enemy_turn_begins ?m)))
                 (hand (enemy (enemy_turn_begins ?m))) = Some 0"
    by code_simp
  have minion: "hand (enemy (enemy_turn_begins ?m)) ! 0 = MinionCard (Minion 7 0)"
    by code_simp
  have rest: "\<forall>c\<in>set (remove_at 0 (hand (enemy (enemy_turn_begins ?m)))).
                energy (enemy (enemy_turn_begins ?m)) - 2 < get_cost c"
    by code_simp
  from rule [THEN conjunct1, THEN mp, OF card] have played:
    "\<exists>m'. play_card ?m 0 OnPlayer = Inr (True, m')
        \<and> active_player_minions m' = [Minion 2 0, Minion 3 0, Minion 4 0, Minion 5 0, Raptor 1 0]"
    by (auto simp: HearthModel_def)
  note last = rule [THEN conjunct2, THEN conjunct2, THEN conjunct2, THEN conjunct2,
                    THEN conjunct2, THEN conjunct2, THEN conjunct2, THEN mp]
  from last alive first minion rest
  have turn: "end_turn ?m =
                ([type_name (MinionCard (Minion 7 0))],
                 (enemy_minions_act ?placed)\<lparr>player := new_turn (player (enemy_minions_act ?placed))\<rparr>)"
    by (simp add: Let_def)
  have after: "active_enemy_minions (enemy_minions_act ?placed)
                 = [Minion 2 0, Minion 3 0, Minion 4 0, Minion 5 0, Minion 7 0]"
    by code_simp
  show ?thesis
  proof (intro conjI)
    show "\<exists>m'. play_card ?m 0 OnPlayer = Inr (True, m')
        \<and> active_player_minions m' = [Minion 2 0, Minion 3 0, Minion 4 0, Minion 5 0, Raptor 1 0]"
      by (rule played)
    show "fst (end_turn ?m) = [''Minion'']"
      unfolding turn by (simp add: Minion_def minion_type_name_def)
    show "active_enemy_minions (snd (end_turn ?m))
            = [Minion 2 0, Minion 3 0, Minion 4 0, Minion 5 0, Minion 7 0]"
      unfolding turn using after by simp
  qed
qed

subsection \<open>The end of a turn\<close>

lemma player_minion_acts_frame:
  "energy (arena_player (player_minion_acts a k)) = energy (arena_player a)"
  "energy_capacity (arena_player (player_minion_acts a k)) = energy_capacity (arena_player a)"
  "deck (arena_player (player_minion_acts a k)) = deck (arena_player a)"
  "hand (arena_player (player_minion_acts a k)) = hand (arena_player a)"
  "energy (arena_enemy (player_minion_acts a k)) = energy (arena_enemy a)"
  "energy_capacity (arena_enemy (player_minion_acts a k)) = energy_capacity (arena_enemy a)"
  "deck (arena_enemy (player_minion_acts a k)) = deck (arena_enemy a)"
  "hand (arena_enemy (player_minion_acts a k)) = hand (arena_enemy a)"
  by (simp_all add: player_minion_acts_def Let_def)

lemma foldl_player_minion_acts_frame:
  "energy (arena_player (foldl player_minion_acts a ks)) = energy (arena_player a)
 \<and> energy_capacity (arena_player (foldl player_minion_acts a ks)) = energy_capacity (arena_player a)
 \<and> deck (arena_player (foldl player_minion_acts a ks)) = deck (arena_player a)
 \<and> hand (arena_player (foldl player_minion_acts a ks)) = hand (arena_player a)
 \<and> energy (arena_enemy (foldl player_minion_acts a ks)) = energy (arena_enemy a)
 \<and> energy_capacity (arena_enemy (foldl player_minion_acts a ks)) = energy_capacity (arena_enemy a)
 \<and> deck (arena_enemy (foldl player_minion_acts a ks)) = deck (arena_enemy a)
 \<and> hand (arena_enemy (foldl player_minion_acts a ks)) = hand (arena_enemy a)"
proof (induction ks arbitrary: a)
  case Nil
  then show ?case by simp
next
  case (Cons k ks)
  from Cons.IH [of "player_minion_acts a k"] show ?case
    by (simp add: player_minion_acts_frame)
qed

lemma player_minions_act_frame:
  "energy (player (player_minions_act m)) = energy (player m)"
  "energy_capacity (player (player_minions_act m)) = energy_capacity (player m)"
  "deck (player (player_minions_act m)) = deck (player m)"
  "hand (player (player_minions_act m)) = hand (player m)"
  "energy (enemy (player_minions_act m)) = energy (enemy m)"
  "energy_capacity (enemy (player_minions_act m)) = energy_capacity (enemy m)"
  "deck (enemy (player_minions_act m)) = deck (enemy m)"
  "hand (enemy (player_minions_act m)) = hand (enemy m)"
  using foldl_player_minion_acts_frame [of "enter m" "player_slots (enter m)"]
  by (simp_all add: player_minions_act_def leave_def) (simp_all add: enter_def)

text \<open>
  C10. When the enemy hero is not alive once the player's minions have acted and
  \<open>enemy.new_turn()\<close> has run, end_turn returns the empty list and the state of that
  moment: the player's new_turn does not run (hand, deck, energy and energy capacity of
  the player are those end_turn found), the enemy plays no card (its hero is as new_turn
  left it) and no enemy minion acts (the rosters are as the player's minions left them).
\<close>

theorem end_turn_stops_when_enemy_dead:
  assumes "\<not> hero_is_alive (enemy (enemy_turn_begins m))"
  shows "end_turn m = ([], enemy_turn_begins m)
       \<and> player (snd (end_turn m)) = player (player_minions_act m)
       \<and> hand (player (snd (end_turn m))) = hand (player m)
       \<and> deck (player (snd (end_turn m))) = deck (player m)
       \<and> energy (player (snd (end_turn m))) = energy (player m)
       \<and> energy_capacity (player (snd (end_turn m))) = energy_capacity (player m)
       \<and> enemy (snd (end_turn m)) = new_turn (enemy (player_minions_act m))
       \<and> active_player_minions (snd (end_turn m)) = active_player_minions (player_minions_act m)
       \<and> active_enemy_minions (snd (end_turn m)) = active_enemy_minions (player_minions_act m)"
  using assms
  by (simp add: end_turn_def Let_def) (simp add: enemy_turn_begins_def player_minions_act_frame)


theorem end_turn_stops_when_enemy_dead_witness:
  "end_turn (HearthModel (Hero 10 0 1 [Shield, Heal] [Heal]) [Raptor 2 0]
                         (Hero 10 0 3 [Shield] [Heal]) [])
     = ([], enemy_turn_begins (HearthModel (Hero 10 0 1 [Shield, Heal] [Heal]) [Raptor 2 0]
                                           (Hero 10 0 3 [Shield] [Heal]) []))
 \<and> hand (player (snd (end_turn (HearthModel (Hero 10 0 1 [Shield, Heal] [Heal]) [Raptor 2 0]
                                             (Hero 10 0 3 [Shield] [Heal]) [])))) = [Heal]
 \<and> energy (player (snd (end_turn (HearthModel (Hero 10 0 1 [Shield, Heal] [Heal]) [Raptor 2 0]
                                               (Hero 10 0 3 [Shield] [Heal]) [])))) = 1"
proof -
  let ?m = "HearthModel (Hero 10 0 1 [Shield, Heal] [Heal]) [Raptor 2 0]
                        (Hero 10 0 3 [Shield] [Heal]) []"
  have "deck (enemy (enemy_turn_begins ?m)) = []"
    by (simp add: enemy_turn_begins_def new_turn_def draw_cards_def Let_def
                  player_minions_act_frame Hero_def HearthModel_def)
  then have dead: "\<not> hero_is_alive (enemy (enemy_turn_begins ?m))"
    by (simp add: hero_is_alive_def remaining_count_def)
  note stopped = end_turn_stops_when_enemy_dead [OF dead]
  from stopped have a: "end_turn ?m = ([], enemy_turn_begins ?m)" by (rule conjunct1)
  from stopped have b: "hand (player (snd (end_turn ?m))) = hand (player ?m)" by blast
  from stopped have c: "energy (player (snd (end_turn ?m))) = energy (player ?m)" by blast
  show ?thesis
  proof (intro conjI)
    show "end_turn ?m = ([], enemy_turn_begins ?m)" by (rule a)
    show "hand (player (snd (end_turn ?m))) = [Heal]"
      unfolding b by (simp add: Hero_def HearthModel_def)
    show "energy (player (snd (end_turn ?m))) = 1"
      unfolding c by (simp add: Hero_def HearthModel_def)
  qed
qed

subsection \<open>The enemy's play order\<close>

lemma remove_at_last: "Suc j = length xs \<Longrightarrow> remove_at j xs = take j xs"
  by (simp add: remove_at_def)

lemma reference_policy_none:
  "(\<forall>c\<in>set cards. e < get_cost c) \<Longrightarrow> reference_policy cards e = []"
  by (subst reference_policy.simps) (simp add: first_affordable_None [symmetric])

lemma get_cost_pos: "0 < get_cost c"
  by (cases c) simp_all

lemma enemy_card_loop_spec:
  "snd (enemy_card_loop m played) = played @ reference_policy (hand (enemy m)) (energy (enemy m))
 \<and> (\<forall>c\<in>set (hand (enemy (fst (enemy_card_loop m played)))).
        energy (enemy (fst (enemy_card_loop m played))) < get_cost c)"
proof (induction m played rule: enemy_card_loop.induct)
  case (1 m played)
  let ?e = "energy (enemy m)" and ?h = "hand (enemy m)"
  show ?case
  proof (cases "first_affordable ?e ?h")
    case None
    then have run: "scan_hand ?h 0 m played = (length ?h, m, played)"
      by (simp add: scan_hand_first)
    have loop: "enemy_card_loop m played = (m, played)"
      by (subst enemy_card_loop.simps) (simp add: run)
    from None have "\<forall>c\<in>set ?h. ?e < get_cost c" by (simp add: first_affordable_None)
    then show ?thesis by (simp add: loop reference_policy_none)
  next
    case (Some j)
    let ?m' = "enemy_plays (?h ! j) j (m\<lparr>enemy := (enemy m)\<lparr>energy := ?e - get_cost (?h ! j)\<rparr>\<rparr>)"
    let ?played' = "played @ [type_name (?h ! j)]"
    have run: "scan_hand ?h 0 m played = (j, ?m', ?played')"
      using scan_hand_first(2) [OF Some, of 0 played] by simp
    from first_affordable_Some [OF Some]
    have j: "j < length ?h" "get_cost (?h ! j) \<le> ?e" "\<forall>k<j. ?e < get_cost (?h ! k)"
      by simp_all
    have hand': "hand (enemy ?m') = remove_at j ?h"
      and energy': "energy (enemy ?m') = ?e - get_cost (?h ! j)"
      by (simp_all add: enemy_plays_hand)
    have ref: "reference_policy ?h ?e
                 = type_name (?h ! j) # reference_policy (remove_at j ?h) (?e - get_cost (?h ! j))"
      by (subst reference_policy.simps) (simp add: Some)
    show ?thesis
    proof (cases "j \<ge> length (hand (enemy ?m'))")
      case True
      have loop: "enemy_card_loop m played = (?m', ?played')"
        using True by (subst enemy_card_loop.simps) (simp add: run)
      from True j(1) have last: "Suc j = length ?h"
        using length_remove_at [of j ?h] by (simp add: hand')
      have "\<forall>c\<in>set (take j ?h). ?e < get_cost c"
        using j(3) last by (auto simp: in_set_conv_nth)
      moreover have "0 < get_cost (?h ! j)" by (rule get_cost_pos)
      ultimately have none: "\<forall>c\<in>set (remove_at j ?h). ?e - get_cost (?h ! j) < get_cost c"
        by (auto simp: remove_at_last [OF last])
      show ?thesis
        using none by (simp add: loop ref hand' energy' reference_policy_none)
    next
      case False
      have loop: "enemy_card_loop m played = enemy_card_loop ?m' ?played'"
        using False by (subst enemy_card_loop.simps) (simp add: run)
      from "1.IH" [OF run [symmetric] refl False] show ?thesis
        by (simp add: loop ref hand' energy')
    qed
  qed
qed

text \<open>
  C2. The enemy's loop is the total function \<open>enemy_card_loop\<close> (it terminates: every pass
  that does not stop it takes a card from the hand). The names it records are those of the
  reference policy, in order; when it stops no card left in the enemy's hand costs at most
  the energy the enemy has left; and when no card of the hand is affordable to begin with
  (three cards each dearer than the energy, say) it plays nothing and records nothing.
  end_turn returns the list of this loop when the enemy is alive at its start, so the empty
  list when the enemy can afford none of its cards.
\<close>

theorem enemy_plays_in_reference_order:
  "snd (enemy_card_loop m played)
     = played @ reference_policy (hand (enemy m)) (energy (enemy m))
 \<and> (\<forall>c\<in>set (hand (enemy (fst (enemy_card_loop m played)))).
        energy (enemy (fst (enemy_card_loop m played))) < get_cost c)
 \<and> ((\<forall>c\<in>set (hand (enemy m)). energy (enemy m) < get_cost c) \<longrightarrow>
        enemy_card_loop m played = (m, played))
 \<and> (hero_is_alive (enemy (enemy_turn_begins m)) \<longrightarrow>
        fst (end_turn m) = reference_policy (hand (enemy (enemy_turn_begins m)))
                                            (energy (enemy (enemy_turn_begins m))))
 \<and> ((\<forall>c\<in>set (hand (enemy (enemy_turn_begins m))).
         energy (enemy (enemy_turn_begins m)) < get_cost c) \<longrightarrow>
        fst (end_turn m) = [])"
proof -
  have none: "(\<forall>c\<in>set (hand (enemy m)). energy (enemy m) < get_cost c) \<longrightarrow>
        enemy_card_loop m played = (m, played)"
  proof
    assume "\<forall>c\<in>set (hand (enemy m)). energy (enemy m) < get_cost c"
    then have "first_affordable (energy (enemy m)) (hand (enemy m)) = None"
      by (simp add: first_affordable_None)
    then have "scan_hand (hand (enemy m)) 0 m played = (length (hand (enemy m)), m, played)"
      by (simp add: scan_hand_first)
    then show "enemy_card_loop m played = (m, played)"
      by (subst enemy_card_loop.simps) simp
  qed
  have turn: "hero_is_alive (enemy (enemy_turn_begins m)) \<longrightarrow>
        fst (end_turn m) = reference_policy (hand (enemy (enemy_turn_begins m)))
                                            (energy (enemy (enemy_turn_begins m)))"
    using enemy_card_loop_spec [of "enemy_turn_begins m" "[]"]
    by (simp add: end_turn_def Let_def)
  have empty: "(\<forall>c\<in>set (hand (enemy (enemy_turn_begins m))).
         energy (enemy (enemy_turn_begins m)) < get_cost c) \<longrightarrow>
        fst (end_turn m) = []"
  proof (cases "hero_is_alive (enemy (enemy_turn_begins m))")
    case True
    with turn show ?thesis by (simp add: reference_policy_none)
  next
    case False
    then show ?thesis by (simp add: end_turn_def Let_def)
  qed
  from enemy_card_loop_spec [of m played] none turn empty show ?thesis by blast
qed


theorem enemy_plays_in_reference_order_witness:
  "enemy_card_loop (HearthModel (Hero 10 0 3 [Shield] []) []
                                (Hero 10 0 2 [Shield] [Fireball 0, Fireball 1, Fireball 0]) []) []
     = (HearthModel (Hero 10 0 3 [Shield] []) []
                    (Hero 10 0 2 [Shield] [Fireball 0, Fireball 1, Fireball 0]) [], [])
 \<and> snd (enemy_card_loop (HearthModel (Hero 10 0 3 [Shield] []) []
                                     (Hero 10 0 4 [Shield] [Heal, Fireball 0, Shield]) []) [])
     = [''Heal'', ''Shield'']"
  using enemy_plays_in_reference_order
      [of "HearthModel (Hero 10 0 3 [Shield] []) []
                       (Hero 10 0 2 [Shield] [Fireball 0, Fireball 1, Fireball 0]) []" "[]"]
    enemy_plays_in_reference_order
      [of "HearthModel (Hero 10 0 3 [Shield] []) []
                       (Hero 10 0 4 [Shield] [Heal, Fireball 0, Shield]) []" "[]"]
  by (simp add: reference_policy.simps remove_at_def Hero_def HearthModel_def)

subsection \<open>Saving and loading\<close>

lemma digit_char_cases:
  "digit_char d \<in> set ''0123456789''"
proof -
  have "d mod 10 < 10" by simp
  then have "''0123456789'' ! (d mod 10) \<in> set ''0123456789''"
    by (intro nth_mem) simp
  then show ?thesis by (simp only: digit_char_def)
qed

lemma is_digit_digit_char [simp]: "is_digit (digit_char d)"
  using digit_char_cases [of d] by (simp only: is_digit_def)

lemma digit_value_digit_char [simp]: "digit_value (digit_char d) = d mod 10"
proof -
  have "d mod 10 < 10" by simp
  then have "d mod 10 \<in> {0, 1, 2, 3, 4, 5, 6, 7, 8, 9}" by simp arith
  then show ?thesis
    by (auto simp: digit_char_def digit_value_def)
qed

lemma is_digit_not_special:
  "is_digit c \<Longrightarrow> \<not> is_c_space c \<and> c \<noteq> CHR ''-'' \<and> c \<noteq> CHR ''+'' \<and> c \<noteq> CHR ''_''
     \<and> c \<noteq> CHR '','' \<and> c \<noteq> CHR '';'' \<and> c \<noteq> CHR ''|''
     \<and> c \<noteq> CHR ''C'' \<and> c \<noteq> CHR ''S'' \<and> c \<noteq> CHR ''H''"
  by (auto simp: is_digit_def is_c_space_def)

lemma str_nat_digits: "str_nat n \<noteq> [] \<and> list_all is_digit (str_nat n)"
proof (induction n rule: str_nat.induct)
  case (1 n)
  show ?case
  proof (cases "n < 10")
    case True
    then show ?thesis by (subst (1 2) str_nat.simps) simp
  next
    case False
    with 1 show ?thesis by (subst (1 2) str_nat.simps) simp
  qed
qed

lemma nat_of_digits_snoc:
  "nat_of_digits (s @ [c]) = 10 * nat_of_digits s + digit_value c"
  by (simp add: nat_of_digits_def)

lemma nat_of_digits_str_nat: "nat_of_digits (str_nat n) = n"
proof (induction n rule: str_nat.induct)
  case (1 n)
  show ?case
  proof (cases "n < 10")
    case True
    then show ?thesis by (subst str_nat.simps) (simp add: nat_of_digits_def)
  next
    case False
    with 1 have "nat_of_digits (str_nat (n div 10)) = n div 10" by simp
    with False show ?thesis
      by (subst str_nat.simps) (simp add: nat_of_digits_snoc)
  qed
qed

lemma int_strip_id:
  assumes "s \<noteq> []" and "\<not> is_c_space (hd s)" and "\<not> is_c_space (last s)"
  shows "int_strip s = s"
proof -
  have a: "dropWhile is_c_space s = s"
    using assms(1,2) by (cases s) simp_all
  have "rev s \<noteq> []" "\<not> is_c_space (hd (rev s))"
    using assms(1,3) by (simp_all add: hd_rev)
  then have b: "dropWhile is_c_space (rev s) = rev s"
    by (cases "rev s") simp_all
  show ?thesis by (simp add: int_strip_def a b)
qed

lemma strip_empty_iff: "strip s = [] \<longleftrightarrow> (\<forall>c\<in>set s. is_space c)"
proof
  assume "\<forall>c\<in>set s. is_space c"
  then have d: "dropWhile is_space s = []" by (simp add: dropWhile_eq_Nil_conv)
  show "strip s = []" by (simp add: strip_def d)
next
  assume e: "strip s = []"
  show "\<forall>c\<in>set s. is_space c"
  proof (rule ccontr)
    assume "\<not> (\<forall>c\<in>set s. is_space c)"
    then have ne: "dropWhile is_space s \<noteq> []" by (simp add: dropWhile_eq_Nil_conv)
    then have "\<not> is_space (hd (dropWhile is_space s))" by (rule hd_dropWhile)
    moreover have "hd (dropWhile is_space s) \<in> set (rev (dropWhile is_space s))"
      using ne by simp
    ultimately have "dropWhile is_space (rev (dropWhile is_space s)) \<noteq> []"
      by (auto simp: dropWhile_eq_Nil_conv)
    with e show False by (simp add: strip_def)
  qed
qed

lemma digits_no_double_underscore: "list_all is_digit s \<Longrightarrow> no_double_underscore s"
  by (induction s rule: no_double_underscore.induct) (auto dest: is_digit_not_special)

lemma valid_int_body_digits:
  assumes "s \<noteq> []" and "list_all is_digit s"
  shows "valid_int_body s" and "filter is_digit s = s"
proof -
  from assms have "is_digit (hd s)" "is_digit (last s)"
    by (auto simp: list_all_iff)
  moreover have "list_all (\<lambda>c. is_digit c \<or> c = CHR ''_'') s"
    using assms(2) by (auto simp: list_all_iff)
  ultimately show "valid_int_body s"
    using assms by (simp add: valid_int_body_def digits_no_double_underscore)
  show "filter is_digit s = s"
    using assms(2) by (simp add: list_all_iff)
qed

lemma py_int_digits:
  assumes "s \<noteq> []" and "list_all is_digit s"
  shows "py_int s = Inr (int (nat_of_digits s))"
proof -
  obtain c rest where s: "s = c # rest" using assms(1) by (cases s) auto
  have c: "is_digit c" using assms(2) s by simp
  have "is_digit (last s)" using assms by (auto simp: list_all_iff)
  then have "int_strip s = s"
    using c s is_digit_not_special by (intro int_strip_id) auto
  moreover have "c \<noteq> CHR ''-''" "c \<noteq> CHR ''+''"
    using c is_digit_not_special by auto
  ultimately show ?thesis
    using valid_int_body_digits [OF assms] s by (simp add: py_int_def)
qed

lemma py_int_minus_digits:
  assumes "s \<noteq> []" and "list_all is_digit s"
  shows "py_int (CHR ''-'' # s) = Inr (- int (nat_of_digits s))"
proof -
  have "is_digit (last s)" using assms by (auto simp: list_all_iff)
  then have "\<not> is_c_space (last (CHR ''-'' # s))"
    using assms(1) is_digit_not_special by auto
  moreover have "\<not> is_c_space (CHR ''-'')" by (simp add: is_c_space_def)
  ultimately have "int_strip (CHR ''-'' # s) = CHR ''-'' # s"
    by (intro int_strip_id) simp_all
  then show ?thesis
    using valid_int_body_digits [OF assms] by (simp add: py_int_def)
qed

lemma py_int_str_int: "py_int (str_int i) = Inr i"
proof (cases "i < 0")
  case True
  then show ?thesis
    using py_int_minus_digits [of "str_nat (nat (- i))"] str_nat_digits [of "nat (- i)"]
    by (simp add: str_int_def nat_of_digits_str_nat)
next
  case False
  then show ?thesis
    using py_int_digits [of "str_nat (nat i)"] str_nat_digits [of "nat i"]
    by (simp add: str_int_def nat_of_digits_str_nat)
qed

lemma str_int_chars: "c \<in> set (str_int i) \<Longrightarrow> is_digit c \<or> c = CHR ''-''"
  using str_nat_digits [of "nat i"] str_nat_digits [of "nat (- i)"]
  by (auto simp: str_int_def list_all_iff split: if_splits)

lemma str_int_no_separator:
  "CHR '','' \<notin> set (str_int i)" "CHR '';'' \<notin> set (str_int i)" "CHR ''|'' \<notin> set (str_int i)"
  using str_int_chars [of _ i] is_digit_not_special by auto

lemma split_no_separator: "sep \<notin> set x \<Longrightarrow> split sep x = [x]"
  by (induction x) auto

lemma split_append: "sep \<notin> set x \<Longrightarrow> split sep (x @ sep # s) = x # split sep s"
  by (induction x) auto

lemma split_join:
  "pieces \<noteq> [] \<Longrightarrow> \<forall>x\<in>set pieces. sep \<notin> set x \<Longrightarrow> split sep (join [sep] pieces) = pieces"
proof (induction "[sep]" pieces rule: join.induct)
  case 1
  then show ?case by simp
next
  case (2 piece)
  then show ?case by (simp add: split_no_separator)
next
  case (3 piece v va)
  then show ?case by (simp add: split_append)
qed

lemma set_join: "set (join sep pieces) \<subseteq> set sep \<union> \<Union> (set ` set pieces)"
  by (induction sep pieces rule: join.induct) auto

lemma minion_symbol_chars:
  "c \<in> set (minion_symbol k) \<Longrightarrow> c = CHR ''M'' \<or> c = CHR ''W'' \<or> c = CHR ''R''"
  by (cases k) (auto simp: minion_symbol_def)

lemma get_symbol_no_separator:
  "CHR '','' \<notin> set (get_symbol c)" "CHR '';'' \<notin> set (get_symbol c)" "CHR ''|'' \<notin> set (get_symbol c)"
  by (cases c; auto simp: str_int_no_separator dest: minion_symbol_chars)+

lemma str_nat_not_letter:
  "str_nat n \<noteq> ''C''" "str_nat n \<noteq> ''S''" "str_nat n \<noteq> ''H''"
  using str_nat_digits [of n] by (auto simp: is_digit_def)

lemma minion_eq: "\<lparr>health = health mn, shield = shield mn, kind = kind mn\<rparr> = (mn :: minion)"
  by simp

lemma card_of_symbol_get_symbol:
  assumes "catalog_card c"
  shows "card_of_symbol (get_symbol c) = Inr (Some (reloaded_card c))"
proof (cases c)
  case (Fireball t)
  with assms have t: "0 \<le> t" by (simp add: catalog_card_def)
  then have sym: "str_int t = str_nat (nat t)" by (simp add: str_int_def)
  have "isdigit (str_nat (nat t))"
    using str_nat_digits [of "nat t"] by (simp add: isdigit_def)
  moreover have "py_int (str_nat (nat t)) = Inr t"
    using py_int_str_int [of t] t by (simp add: str_int_def)
  ultimately show ?thesis
    by (simp add: Fireball sym card_of_symbol_def str_nat_not_letter and_then_def reloaded_card_def)
next
  case (MinionCard mn)
  then show ?thesis
    by (cases "kind mn")
       (simp_all add: card_of_symbol_def minion_symbol_def isdigit_def is_digit_def
                      reloaded_card_def Minion_def Raptor_def Wyrm_def)
qed (simp_all add: card_of_symbol_def reloaded_card_def)

lemma cards_of_symbols_get_symbol:
  "\<forall>c\<in>set cards. catalog_card c \<Longrightarrow>
     cards_of_symbols (map get_symbol cards) = Inr (map reloaded_card cards)"
  by (induction cards) (simp_all add: card_of_symbol_get_symbol and_then_def)

lemma generate_cards_deck_str:
  assumes "\<forall>c\<in>set cards. catalog_card c"
  shows "generate_cards (join '','' (map get_symbol cards)) = Inr (map reloaded_card cards)"
proof (cases cards)
  case Nil
  then show ?thesis
    by (simp add: generate_cards_def card_of_symbol_def isdigit_def and_then_def)
next
  case (Cons c cs)
  have "split CHR '','' (join '','' (map get_symbol cards)) = map get_symbol cards"
    by (rule split_join) (simp_all add: Cons get_symbol_no_separator)
  then show ?thesis
    using cards_of_symbols_get_symbol [OF assms] by (simp add: generate_cards_def)
qed

lemma join_no_separator:
  "c \<notin> set sep \<Longrightarrow> \<forall>x\<in>set pieces. c \<notin> set x \<Longrightarrow> c \<notin> set (join sep pieces)"
  using set_join [of sep pieces] by auto

lemma stats_split:
  "split CHR '','' (str_int a @ CHR '','' # str_int b @ CHR '','' # str_int c)
     = [str_int a, str_int b, str_int c]"
  using split_join [of "[str_int a, str_int b, str_int c]" "CHR '',''"]
  by (simp add: str_int_no_separator)

lemma generate_hero_hero_str:
  assumes "\<forall>c\<in>set (deck h). catalog_card c" and "\<forall>c\<in>set (hand h). catalog_card c"
  shows "generate_hero (hero_str h) = Inr (reloaded_hero h)"
proof -
  let ?stats = "str_int (health h) @ '','' @ str_int (shield h) @ '','' @ str_int (energy_capacity h)"
  let ?deck = "join '','' (map get_symbol (deck h))"
  let ?hand = "join '','' (map get_symbol (hand h))"
  have stats: "CHR '';'' \<notin> set ?stats"
    by (simp add: str_int_no_separator)
  have deck: "CHR '';'' \<notin> set ?deck" and hand: "CHR '';'' \<notin> set ?hand"
    by (rule join_no_separator; simp add: get_symbol_no_separator)+
  have "hero_str h = join '';'' [?stats, ?deck, ?hand]"
    by (simp add: hero_str_def deck_str_def)
  then have "split CHR '';'' (hero_str h) = [?stats, ?deck, ?hand]"
    using split_join [of "[?stats, ?deck, ?hand]" "CHR '';''"] stats deck hand by simp
  then show ?thesis
    using generate_cards_deck_str [OF assms(1)] generate_cards_deck_str [OF assms(2)]
    by (simp add: generate_hero_def stats_split and_then_def py_int_str_int reloaded_hero_def)
qed

lemma minion_info_split:
  "split CHR '','' (minion_info mn)
     = [minion_symbol (kind mn), str_int (health mn), str_int (shield mn)]"
proof -
  have "CHR '','' \<notin> set (minion_symbol (kind mn))"
    by (auto dest: minion_symbol_chars)
  then show ?thesis
    using split_join [of "[minion_symbol (kind mn), str_int (health mn), str_int (shield mn)]" "CHR '',''"]
    by (simp add: minion_info_def get_health_def get_shield_def str_int_no_separator)
qed

lemma minion_of_info_minion_info: "minion_of_info (minion_info mn) = Inr (Some mn)"
  by (cases "kind mn")
     (simp_all add: minion_of_info_def minion_info_split minion_symbol_def and_then_def
                    py_int_str_int Minion_def Raptor_def Wyrm_def)

lemma minions_of_infos_minion_info: "minions_of_infos (map minion_info minions) = Inr minions"
  by (induction minions) (simp_all add: minion_of_info_minion_info and_then_def)

lemma minion_info_no_separator:
  "CHR '';'' \<notin> set (minion_info mn)" "CHR ''|'' \<notin> set (minion_info mn)"
  by (auto simp: minion_info_def str_int_no_separator dest: minion_symbol_chars)

lemma minion_info_letter: "\<exists>c\<in>set (minion_info mn). \<not> is_space c"
  by (cases "kind mn") (simp_all add: minion_info_def minion_symbol_def is_space_def)

lemma set_join_first: "pieces \<noteq> [] \<Longrightarrow> set (hd pieces) \<subseteq> set (join sep pieces)"
  by (induction sep pieces rule: join.induct) auto

lemma generate_minions_get_minion_info:
  "generate_minions (get_minion_info minions) = Inr minions"
proof (cases minions)
  case Nil
  then show ?thesis by (simp add: generate_minions_def get_minion_info_def strip_def)
next
  case (Cons mn rest)
  have "set (minion_info mn) \<subseteq> set (get_minion_info minions)"
    using set_join_first [of "map minion_info minions" "'';''"]
    by (simp add: get_minion_info_def Cons)
  with minion_info_letter [of mn] have "strip (get_minion_info minions) \<noteq> []"
    by (auto simp: strip_empty_iff)
  moreover have "split CHR '';'' (get_minion_info minions) = map minion_info minions"
    unfolding get_minion_info_def
    by (rule split_join) (simp_all add: Cons minion_info_no_separator)
  ultimately show ?thesis
    by (simp add: generate_minions_def minions_of_infos_minion_info)
qed

lemma hero_str_no_bar: "CHR ''|'' \<notin> set (hero_str h)"
proof -
  have "CHR ''|'' \<notin> set (join '','' (map get_symbol cards))" for cards
    by (rule join_no_separator) (simp_all add: get_symbol_no_separator)
  then show ?thesis
    by (simp add: hero_str_def deck_str_def str_int_no_separator)
qed

lemma get_minion_info_no_bar: "CHR ''|'' \<notin> set (get_minion_info minions)"
  unfolding get_minion_info_def
  by (rule join_no_separator) (simp_all add: minion_info_no_separator)

lemma load_game_model_str:
  assumes "\<forall>c\<in>set (deck (player m) @ hand (player m) @ deck (enemy m) @ hand (enemy m)).
             catalog_card c"
  shows "load_game (model_str m)
           = Inr (HearthModel (reloaded_hero (player m)) (active_player_minions m)
                              (reloaded_hero (enemy m)) (active_enemy_minions m))"
proof -
  let ?parts = "[hero_str (player m), get_minion_info (active_player_minions m),
                 hero_str (enemy m), get_minion_info (active_enemy_minions m)]"
  have "model_str m = join ''|'' ?parts"
    by (simp add: model_str_def)
  then have parts: "split CHR ''|'' (model_str m) = ?parts"
    using split_join [of ?parts "CHR ''|''"] by (simp add: hero_str_no_bar get_minion_info_no_bar)
  have p: "generate_hero (hero_str (player m)) = Inr (reloaded_hero (player m))"
    and e: "generate_hero (hero_str (enemy m)) = Inr (reloaded_hero (enemy m))"
    using assms by (simp_all add: generate_hero_hero_str)
  show ?thesis
    by (simp add: load_game_def parts p e generate_minions_get_minion_info and_then_def)
qed

lemma get_symbol_reloaded_card: "get_symbol (reloaded_card c) = get_symbol c"
  by (cases c) (simp_all add: reloaded_card_def)

text \<open>
  C4. For a game state whose hand and deck cards are cards of the catalog (a Fireball
  with a turn count, so not a negative one), loading the line that saving writes gives a
  model with the same health, shield and energy capacity for both heroes, the energy at
  capacity, the same symbols in order in both decks and both hands, and the same
  (symbol, health, shield) triples in order in both rosters.
\<close>

theorem save_then_load_round_trip:
  assumes "\<forall>c\<in>set (deck (player m) @ hand (player m) @ deck (enemy m) @ hand (enemy m)).
             catalog_card c"
  shows "\<exists>m'. load_game (model_str m) = Inr m'
     \<and> health (player m') = health (player m)
     \<and> shield (player m') = shield (player m)
     \<and> energy_capacity (player m') = energy_capacity (player m)
     \<and> energy (player m') = energy_capacity (player m)
     \<and> health (enemy m') = health (enemy m)
     \<and> shield (enemy m') = shield (enemy m)
     \<and> energy_capacity (enemy m') = energy_capacity (enemy m)
     \<and> energy (enemy m') = energy_capacity (enemy m)
     \<and> map get_symbol (deck (player m')) = map get_symbol (deck (player m))
     \<and> map get_symbol (hand (player m')) = map get_symbol (hand (player m))
     \<and> map get_symbol (deck (enemy m')) = map get_symbol (deck (enemy m))
     \<and> map get_symbol (hand (enemy m')) = map get_symbol (hand (enemy m))
     \<and> map (\<lambda>mn. (minion_symbol (kind mn), health mn, shield mn)) (active_player_minions m')
         = map (\<lambda>mn. (minion_symbol (kind mn), health mn, shield mn)) (active_player_minions m)
     \<and> map (\<lambda>mn. (minion_symbol (kind mn), health mn, shield mn)) (active_enemy_minions m')
         = map (\<lambda>mn. (minion_symbol (kind mn), health mn, shield mn)) (active_enemy_minions m)"
  using load_game_model_str [OF assms]
  by (simp add: HearthModel_def reloaded_hero_def Hero_def get_symbol_reloaded_card)

theorem save_then_load_round_trip_witness:
  "\<exists>m'. load_game (model_str
            (HearthModel (Hero 10 (- 2) 3 [Shield, Fireball 12, MinionCard (Raptor 4 2)]
                                         [Heal, Card, MinionCard (Wyrm 3 3)])
                         [Raptor 3 0, Wyrm 12 1]
                         (Hero 20 5 7 [] []) [])) = Inr m'
     \<and> shield (player m') = - 2
     \<and> energy (player m') = 3
     \<and> map get_symbol (deck (player m')) = map get_symbol [Shield, Fireball 12, MinionCard (Raptor 4 2)]
     \<and> hand (enemy m') = []
     \<and> map (\<lambda>mn. (minion_symbol (kind mn), health mn, shield mn)) (active_player_minions m')
         = [(''R'', 3, 0), (''W'', 12, 1)]"
  using save_then_load_round_trip
    [of "HearthModel (Hero 10 (- 2) 3 [Shield, Fireball 12, MinionCard (Raptor 4 2)]
                                     [Heal, Card, MinionCard (Wyrm 3 3)])
                     [Raptor 3 0, Wyrm 12 1]
                     (Hero 20 5 7 [] []) []"]
  by (auto simp: HearthModel_def Hero_def Raptor_def Wyrm_def catalog_card_def minion_symbol_def)

text \<open>
  The symbol of a Fireball built with a negative count is not a string of digits, no
  branch of \<open>_generate_cards\<close> takes it, and the card is not loaded.
\<close>

lemma negative_fireball_is_not_reloaded:
  "load_game (model_str (HearthModel (Hero 10 0 3 [Heal] [Fireball (- 1), Shield]) []
                                     (Hero 10 0 3 [Heal] []) []))
     = Inr (HearthModel (Hero 10 0 3 [Heal] [Shield]) [] (Hero 10 0 3 [Heal] []) [])"
  by code_simp

subsection \<open>Further properties of the source\<close>

text \<open>
  draw_cards with a count that is not negative returns the first \<open>min k n\<close> cards of a
  deck of \<open>n\<close> in deck order and leaves the others: no card is lost or made.
\<close>

lemma draw_cards_front:
  assumes "0 \<le> k"
  shows "draw_cards k cards = (take (nat k) cards, drop (nat k) cards)
       \<and> length (fst (draw_cards k cards)) = min (nat k) (length cards)
       \<and> fst (draw_cards k cards) @ snd (draw_cards k cards) = cards"
  using assms by (auto simp: draw_cards_def slice_stop_def min_def)

lemma draw_cards_front_witness:
  "draw_cards 2 [Heal, Shield, Card] = ([Heal, Shield], [Card])
 \<and> draw_cards 5 [Heal, Shield, Card] = ([Heal, Shield, Card], [])"
  using draw_cards_front [of 2 "[Heal, Shield, Card]"] draw_cards_front [of 5 "[Heal, Shield, Card]"]
  by simp

text \<open>
  A hero with health 5 and an empty deck is not alive, and neither is a hero with health
  0 and three cards in the deck.
\<close>

lemma hero_without_deck_or_health_is_dead:
  "\<not> hero_is_alive (Hero 5 0 1 [] [Heal])
 \<and> \<not> hero_is_alive (Hero 0 0 1 [Heal, Shield, Card] [])
 \<and> hero_is_alive (Hero 5 0 1 [Heal] [])"
  by (simp add: hero_is_alive_def is_alive_def remaining_count_def Hero_def)

text \<open>Each turn a Fireball spends in a hand adds 1 to its damage.\<close>

lemma fireball_damage_grows:
  "get_effect (Fireball t) DAMAGE = Some (t + 3)
 \<and> get_effect (increment_turn (Fireball t)) DAMAGE = Some (t + 3 + 1)"
  by simp

text \<open>
  With more than 5 minions in the player's roster (a state the constructor and load_game
  accept), playing a permanent card the player can afford reaches the loop
  \<open>while len(...) > 5: self._active_player_minions.pop[0]\<close> and raises TypeError.
\<close>

lemma play_card_into_overfull_roster:
  assumes "i < length (hand (player m))" and "hand (player m) ! i = MinionCard mn"
    and "get_cost (MinionCard mn) \<le> energy (player m)"
    and "5 < length (active_player_minions m)"
  shows "play_card m i t = Inl TypeError"
  using assms by (simp add: play_card_def spend_energy_def Let_def place_minion_def)

lemma play_card_into_overfull_roster_witness:
  "play_card (HearthModel (Hero 10 0 2 [Shield] [MinionCard (Wyrm 1 0)])
                          [Minion 1 0, Minion 1 0, Minion 1 0, Minion 1 0, Minion 1 0, Minion 1 0]
                          (Hero 10 0 2 [Shield] []) [])
             0 OnPlayer = Inl TypeError"
  using play_card_into_overfull_roster
    [of 0 "HearthModel (Hero 10 0 2 [Shield] [MinionCard (Wyrm 1 0)])
                       [Minion 1 0, Minion 1 0, Minion 1 0, Minion 1 0, Minion 1 0, Minion 1 0]
                       (Hero 10 0 2 [Shield] []) []" "Wyrm 1 0" OnPlayer]
  by (simp add: HearthModel_def Hero_def)

end
